theory Spec2Isabelle
  imports Complex_Main "HOL-Library.Sublist"
begin

section \<open>Python values shared by the embedded modules\<close>

text \<open>
  Exceptions are values. \<open>Exception\<close> stands for any subclass of Python's
  \<open>Exception\<close> and carries the class name and the text of \<open>str(e)\<close>;
  \<open>ApplicationError\<close> is temporalio's error with its \<open>non_retryable\<close> flag;
  \<open>RuntimeError\<close> carries its message and the exception named after \<open>from\<close>;
  \<open>BaseExc\<close> is a \<open>BaseException\<close> that is not an \<open>Exception\<close> (a cancellation),
  which the \<open>except Exception\<close> clauses of the source do not catch.
\<close>

datatype exn =
    Exception string string
  | ApplicationError string bool
  | RuntimeError string exn
  | BaseExc string string

fun py_str :: "exn \<Rightarrow> string" where
  "py_str (Exception _ m) = m"
| "py_str (ApplicationError m _) = m"
| "py_str (RuntimeError m _) = m"
| "py_str (BaseExc _ m) = m"

fun type_name :: "exn \<Rightarrow> string" where
  "type_name (Exception t _) = t"
| "type_name (ApplicationError _ _) = ''ApplicationError''"
| "type_name (RuntimeError _ _) = ''RuntimeError''"
| "type_name (BaseExc t _) = t"

fun is_Exception :: "exn \<Rightarrow> bool" where
  "is_Exception (BaseExc _ _) = False"
| "is_Exception _ = True"

text \<open>Truthiness of an optional string: \<open>None\<close> and the empty string are false.\<close>

fun truthy_str :: "string option \<Rightarrow> bool" where
  "truthy_str None = False"
| "truthy_str (Some s) = (s \<noteq> [])"

section \<open>app/temporal/schemas.py and app/temporal/workflows/base.py\<close>

datatype WorkflowStatus = PENDING | RUNNING | COMPLETED | FAILED | CANCELLED

record StepProgress =
  step_id :: string
  step_name :: string
  step_status :: WorkflowStatus
  progress_pct :: int
  message :: "string option"

record WorkflowInput =
  secret_key :: "string option"
  rewrite_enabled :: bool
  rewrite_device :: "string option"

text \<open>The two settings of \<open>app_config\<close> that \<open>WorkflowContext.start\<close> reads.\<close>

record app_config =
  WORKFLOW_SECRET_ENABLED :: bool
  WORKFLOW_SECRET_KEY :: "string option"

record WorkflowContext =
  status :: WorkflowStatus
  current_step :: "StepProgress option"
  completed_steps :: "string list"

definition init_context :: WorkflowContext where
  "init_context = \<lparr>status = PENDING, current_step = None, completed_steps = []\<rparr>"

text \<open>
  A method that may raise returns the exception (\<open>Some e\<close>) or \<open>None\<close>, together with
  the context as the call leaves it.
\<close>

definition start ::
  "app_config \<Rightarrow> 'a WorkflowInput_scheme \<Rightarrow> WorkflowContext \<Rightarrow> exn option \<times> WorkflowContext" where
  "start cfg inp ctx =
     (if WORKFLOW_SECRET_ENABLED cfg then
        (if \<not> truthy_str (WORKFLOW_SECRET_KEY cfg) then
           (Some (ApplicationError ''WORKFLOW_SECRET_KEY not configured on server'' True), ctx)
         else if secret_key inp \<noteq> WORKFLOW_SECRET_KEY cfg then
           (Some (ApplicationError ''Authentication failed: invalid secret_key'' True), ctx)
         else (None, ctx\<lparr>status := RUNNING\<rparr>))
      else (None, ctx\<lparr>status := RUNNING\<rparr>))"

definition complete :: "WorkflowContext \<Rightarrow> WorkflowContext" where
  "complete ctx =
     ctx\<lparr>status := COMPLETED,
         current_step := Some \<lparr>step_id = ''complete'', step_name = ''Complete'',
           step_status = COMPLETED, progress_pct = 100, message = Some ''Done!''\<rparr>\<rparr>"

definition fail :: "string \<Rightarrow> WorkflowContext \<Rightarrow> WorkflowContext" where
  "fail error ctx =
     (case current_step ctx of
        None \<Rightarrow> ctx\<lparr>status := FAILED\<rparr>
      | Some s \<Rightarrow>
          ctx\<lparr>status := FAILED,
              current_step := Some (s\<lparr>step_status := FAILED, message := Some error\<rparr>)\<rparr>)"

text \<open>
  The context manager \<open>step\<close>, in the three places where it touches the context:
  on entry, when the body returns, and when the body raises. \<open>message or f'{step_name}...'\<close>
  takes the default for an empty message.
\<close>

definition step_enter :: "string \<Rightarrow> string \<Rightarrow> int \<Rightarrow> string \<Rightarrow> WorkflowContext \<Rightarrow> WorkflowContext" where
  "step_enter sid sname pct msg ctx =
     ctx\<lparr>current_step := Some \<lparr>step_id = sid, step_name = sname, step_status = RUNNING,
        progress_pct = pct, message = Some (if msg \<noteq> [] then msg else sname @ ''...'')\<rparr>\<rparr>"

text \<open>
  Both exits write through \<open>self._current_step\<close>; were it \<open>None\<close> the attribute write
  would raise \<open>AttributeError\<close>, inside the \<open>try\<close> and again inside the handler, and the
  context would stay as it is (the message is written here without its quotation marks).
\<close>

definition attribute_error :: exn where
  "attribute_error = Exception ''AttributeError'' ''NoneType object has no attribute status''"

definition step_failed :: "exn \<Rightarrow> WorkflowContext \<Rightarrow> exn \<times> WorkflowContext" where
  "step_failed e ctx =
     (if \<not> is_Exception e then (e, ctx)
      else case current_step ctx of
        None \<Rightarrow> (attribute_error, ctx)
      | Some s \<Rightarrow>
          (e, ctx\<lparr>current_step := Some (s\<lparr>step_status := FAILED, message := Some (py_str e)\<rparr>),
                 status := FAILED\<rparr>))"

definition step_completed :: "string \<Rightarrow> WorkflowContext \<Rightarrow> exn option \<times> WorkflowContext" where
  "step_completed sid ctx =
     (case current_step ctx of
        None \<Rightarrow> (Some attribute_error, ctx)
      | Some s \<Rightarrow>
          (None, ctx\<lparr>current_step := Some (s\<lparr>step_status := COMPLETED\<rparr>),
                    completed_steps := completed_steps ctx @ [sid]\<rparr>))"

text \<open>
  \<open>async with ctx.step(...)\<close> around a body. The body works on the same context object
  and on the rest of the state \<open>'s\<close> (the record of activity calls), and returns a value
  or raises.
\<close>

definition step ::
  "string \<Rightarrow> string \<Rightarrow> int \<Rightarrow> string \<Rightarrow>
   (WorkflowContext \<Rightarrow> 's \<Rightarrow> (exn + 'a) \<times> WorkflowContext \<times> 's) \<Rightarrow>
   WorkflowContext \<Rightarrow> 's \<Rightarrow> (exn + 'a) \<times> WorkflowContext \<times> 's" where
  "step sid sname pct msg body ctx st =
     (case body (step_enter sid sname pct msg ctx) st of
        (Inr v, ctx', st') \<Rightarrow>
          (case step_completed sid ctx' of
             (None, ctx'') \<Rightarrow> (Inr v, ctx'', st')
           | (Some e, ctx'') \<Rightarrow>
               (case step_failed e ctx'' of (e', ctx''') \<Rightarrow> (Inl e', ctx''', st')))
      | (Inl e, ctx', st') \<Rightarrow>
          (case step_failed e ctx' of (e', ctx'') \<Rightarrow> (Inl e', ctx'', st')))"


text \<open>
  The operations that write the context, as values, so that a sequence of calls on one
  context can be run: \<open>start\<close>, the entry of a step, its normal and its exceptional exit,
  \<open>complete\<close> and \<open>fail\<close>.
\<close>

datatype ctx_op =
    OpStart WorkflowInput
  | OpStepEnter string string int string
  | OpStepCompleted string
  | OpStepFailed exn
  | OpComplete
  | OpFail string

fun apply_op :: "app_config \<Rightarrow> ctx_op \<Rightarrow> WorkflowContext \<Rightarrow> WorkflowContext" where
  "apply_op cfg (OpStart inp) ctx = snd (start cfg inp ctx)"
| "apply_op cfg (OpStepEnter sid sname pct msg) ctx = step_enter sid sname pct msg ctx"
| "apply_op cfg (OpStepCompleted sid) ctx = snd (step_completed sid ctx)"
| "apply_op cfg (OpStepFailed e) ctx = snd (step_failed e ctx)"
| "apply_op cfg OpComplete ctx = complete ctx"
| "apply_op cfg (OpFail error) ctx = fail error ctx"

fun run_ops :: "app_config \<Rightarrow> ctx_op list \<Rightarrow> WorkflowContext \<Rightarrow> WorkflowContext" where
  "run_ops cfg [] ctx = ctx"
| "run_ops cfg (op # ops) ctx = run_ops cfg ops (apply_op cfg op ctx)"

fun terminal :: "WorkflowStatus \<Rightarrow> bool" where
  "terminal COMPLETED = True"
| "terminal FAILED = True"
| "terminal CANCELLED = True"
| "terminal _ = False"

text \<open>The operations that only track a step: entering it and leaving it normally.\<close>

fun tracks_step :: "ctx_op \<Rightarrow> bool" where
  "tracks_step (OpStepEnter _ _ _ _) = True"
| "tracks_step (OpStepCompleted _) = True"
| "tracks_step _ = False"

text \<open>\<open>start\<close> passes when authentication is off, or the configured key is non-empty and equal.\<close>

definition auth_passes :: "app_config \<Rightarrow> 'a WorkflowInput_scheme \<Rightarrow> bool" where
  "auth_passes cfg inp =
     (if WORKFLOW_SECRET_ENABLED cfg
      then truthy_str (WORKFLOW_SECRET_KEY cfg) \<and> secret_key inp = WORKFLOW_SECRET_KEY cfg
      else True)"

section \<open>Python strings\<close>

text \<open>
  Strings are lists of characters. \<open>lower\<close> is \<open>str.lower\<close> on ASCII text: the letters
  \<open>A\<close> to \<open>Z\<close> go to \<open>a\<close> to \<open>z\<close> and every other character stays.
\<close>

definition lower_char :: "char \<Rightarrow> char" where
  "lower_char c =
     (case map_of (zip ''ABCDEFGHIJKLMNOPQRSTUVWXYZ'' ''abcdefghijklmnopqrstuvwxyz'') c of
        Some d \<Rightarrow> d
      | None \<Rightarrow> c)"

definition lower :: "string \<Rightarrow> string" where
  "lower s = map lower_char s"

text \<open>\<open>needle in hay\<close> on strings: \<open>needle\<close> occurs as a contiguous piece of \<open>hay\<close>.\<close>

fun contains :: "string \<Rightarrow> string \<Rightarrow> bool" where
  "contains needle [] = (needle = [])"
| "contains needle (c # cs) = (prefix needle (c # cs) \<or> contains needle cs)"

text \<open>\<open>s.split(sep)\<close> for a one-character separator, and \<open>sep.join(parts)\<close>.\<close>

fun split :: "char \<Rightarrow> string \<Rightarrow> string list" where
  "split sep [] = [[]]"
| "split sep (c # cs) =
     (if c = sep then [] # split sep cs
      else case split sep cs of
        [] \<Rightarrow> [[c]]
      | w # ws \<Rightarrow> (c # w) # ws)"

fun join :: "string \<Rightarrow> string list \<Rightarrow> string" where
  "join sep [] = []"
| "join sep [w] = w"
| "join sep (w # ws) = w @ sep @ join sep ws"

text \<open>The slice \<open>xs[-n:]\<close>: the last \<open>n\<close> elements, or all of them when there are fewer.\<close>

definition last_n :: "nat \<Rightarrow> 'a list \<Rightarrow> 'a list" where
  "last_n n xs = drop (length xs - n) xs"

text \<open>\<open>str(i)\<close> for an integer: its decimal digits, with a minus sign when negative.\<close>

definition digit_char :: "nat \<Rightarrow> char" where
  "digit_char d = ''0123456789'' ! d"

fun digits :: "nat \<Rightarrow> string" where
  "digits n = (if n < 10 then [digit_char n] else digits (n div 10) @ [digit_char (n mod 10)])"

declare digits.simps [simp del]

definition str_int :: "int \<Rightarrow> string" where
  "str_int i = (if i < 0 then ''-'' @ digits (nat (- i)) else digits (nat i))"

section \<open>app/temporal/workflows/generations/slideshows_pinterest.py: selection\<close>

definition NUM_QUERIES :: nat where
  "NUM_QUERIES = 5"

definition NUM_IMAGES_TO_RETURN :: nat where
  "NUM_IMAGES_TO_RETURN = 25"

text \<open>
  The keyword set, listed in the order of the source. The source holds it in a
  \<open>frozenset\<close>, whose iteration order is not fixed; \<open>calculate_text_penalty_in\<close> takes
  the order as an argument.
\<close>

definition UNWANTED_IMAGE_KEYWORDS :: "string list" where
  "UNWANTED_IMAGE_KEYWORDS =
     [''infographic'', ''template'', ''printable'', ''checklist'', ''worksheet'', ''quote'',
      ''quotes'', ''tips'', ''tutorial'', ''how to'', ''howto'', ''step by step'', ''guide'',
      ''cheat sheet'', ''cheatsheet'', ''recipe'', ''ingredients'', ''instructions'', ''diy'',
      ''download'', ''free'', ''pdf'', ''ebook'', ''chart'', ''diagram'', ''graph'',
      ''statistics'',
      ''logo'', ''watermark'', ''stock'', ''shutterstock'', ''getty'', ''adobe stock'',
      ''pin this'', ''save this'', ''click'', ''link in bio'',
      ''collage'', ''grid'', ''mood board'', ''moodboard'', ''collection'', ''compilation'',
      ''roundup'', ''round up'', ''best of'', ''3x3'', ''2x2'', ''4x4'', ''photo dump'',
      ''photodump'']"

text \<open>
  A scraped pin is a dictionary read with \<open>pin.get\<close>. A field is \<open>None\<close> when the key is
  absent (for title, description, width and height also when its value is \<open>None\<close>);
  the values present have the types of the scraper's pin model: strings, and integers for
  the two dimensions.
\<close>

record pin =
  pin_id :: "string option"
  title :: "string option"
  description :: "string option"
  image_url :: "string option"
  aspect_ratio :: "string option"
  image_width :: "int option"
  image_height :: "int option"

record PinterestImage =
  img_id :: string
  img_title :: "string option"
  img_description :: "string option"
  img_image_url :: string
  img_aspect_ratio :: string
  img_image_width :: "int option"
  img_image_height :: "int option"

text \<open>\<open>pin.get(key) or default\<close> and \<open>pin.get(key, default)\<close>.\<close>

definition or_zero :: "int option \<Rightarrow> int" where
  "or_zero v = (case v of None \<Rightarrow> 0 | Some n \<Rightarrow> n)"

definition get_str :: "string option \<Rightarrow> string \<Rightarrow> string" where
  "get_str v dflt = (case v of None \<Rightarrow> dflt | Some s \<Rightarrow> s)"

text \<open>The loop of \<open>_calculate_text_penalty\<close>, on the pair (penalty, keywords_found).\<close>

fun penalty_loop :: "string list \<Rightarrow> string \<Rightarrow> rat \<times> nat \<Rightarrow> rat \<times> nat" where
  "penalty_loop [] text acc = acc"
| "penalty_loop (keyword # ks) text (penalty, keywords_found) =
     (if contains keyword text then
        (if keywords_found + 1 = 1
         then penalty_loop ks text (penalty + 50, keywords_found + 1)
         else penalty_loop ks text (penalty + 15, keywords_found + 1))
      else penalty_loop ks text (penalty, keywords_found))"

definition combined_text :: "'a pin_scheme \<Rightarrow> string" where
  "combined_text p = lower (get_str (title p) []) @ '' '' @ lower (get_str (description p) [])"

definition calculate_text_penalty_in :: "string list \<Rightarrow> 'a pin_scheme \<Rightarrow> rat" where
  "calculate_text_penalty_in keywords p =
     min 100 (fst (penalty_loop keywords (combined_text p) (0, 0)))"

definition calculate_text_penalty :: "'a pin_scheme \<Rightarrow> rat" where
  "calculate_text_penalty p = calculate_text_penalty_in UNWANTED_IMAGE_KEYWORDS p"

text \<open>
  \<open>_score_pin\<close>. The score is a Python float; it is a rational number here, so the
  arithmetic is exact.
\<close>

definition score_pin :: "'a pin_scheme \<Rightarrow> rat" where
  "score_pin p =
     (let width = or_zero (image_width p);
          height = or_zero (image_height p);
          score = 0;
          score = (if width \<noteq> 0 \<and> height \<noteq> 0
                   then score + min 40 (of_int (width * height) / 25000) else score);
          score = (if truthy_str (title p) then score + 10 else score);
          score = (if truthy_str (description p) then score + 10 else score);
          aspect = get_str (aspect_ratio p) [];
          score = (if aspect = ''9:16'' then score + 30
                   else if aspect = ''2:3'' \<or> aspect = ''3:4'' then score + 25
                   else if aspect = ''1:1'' then score + 15
                   else if width \<noteq> 0 \<and> height \<noteq> 0 \<and> height > width then score + 20
                   else score);
          score = (if truthy_str (pin_id p) then score + 10 else score)
      in score - calculate_text_penalty p)"

text \<open>
  \<open>_compute_image_hash\<close> and \<open>_is_too_similar\<close>. \<open>md5\<close> stands for
  \<open>hashlib.md5(s.encode()).hexdigest()\<close>, a function of the standard library.
\<close>

definition hash_input :: "'a pin_scheme \<Rightarrow> string" where
  "hash_input p =
     join ''-'' (last_n 3 (split (CHR ''/'') (get_str (image_url p) [])))
       @ '':'' @ str_int (or_zero (image_width p)) @ '':'' @ str_int (or_zero (image_height p))"

definition compute_image_hash :: "(string \<Rightarrow> string) \<Rightarrow> 'a pin_scheme \<Rightarrow> string" where
  "compute_image_hash md5 p = take 8 (md5 (hash_input p))"

definition is_too_similar :: "string \<Rightarrow> string list \<Rightarrow> bool" where
  "is_too_similar pin_hash selected_hashes =
     list_ex (\<lambda>existing_hash. take 4 pin_hash = take 4 existing_hash) selected_hashes"

text \<open>The \<open>PinterestImage\<close> built from a selected pin.\<close>

definition to_image :: "'a pin_scheme \<Rightarrow> PinterestImage" where
  "to_image p =
     \<lparr>img_id = get_str (pin_id p) [],
      img_title = title p,
      img_description = description p,
      img_image_url = get_str (image_url p) [],
      img_aspect_ratio = get_str (aspect_ratio p) ''9:16'',
      img_image_width = image_width p,
      img_image_height = image_height p\<rparr>"

text \<open>\<open>model_dump\<close>: the image read back as a dictionary.\<close>

definition model_dump :: "PinterestImage \<Rightarrow> pin" where
  "model_dump i =
     \<lparr>pin_id = Some (img_id i), title = img_title i, description = img_description i,
      image_url = Some (img_image_url i), aspect_ratio = Some (img_aspect_ratio i),
      image_width = img_image_width i, image_height = img_image_height i\<rparr>"

text \<open>The first loop of \<open>_select_best_images\<close>: deduplicate by URL and score.\<close>

fun dedup_score :: "pin list \<Rightarrow> string list \<Rightarrow> (rat \<times> pin) list" where
  "dedup_score [] seen_urls = []"
| "dedup_score (p # ps) seen_urls =
     (let url = get_str (image_url p) [] in
      if url = [] \<or> url \<in> set seen_urls then dedup_score ps seen_urls
      else (score_pin p, p) # dedup_score ps (url # seen_urls))"

text \<open>
  \<open>scored_pins.sort(key=lambda x: x[0], reverse=True)\<close>: the library's sort, stable and
  descending by the key.
\<close>

definition sort_scored :: "(rat \<times> pin) list \<Rightarrow> (rat \<times> pin) list" where
  "sort_scored scored_pins = sort_key (\<lambda>x. - fst x) scored_pins"

text \<open>The second loop, on the pair (selected, selected_hashes); \<open>limit\<close> is the number to return.\<close>

fun select_loop ::
  "(string \<Rightarrow> string) \<Rightarrow> nat \<Rightarrow> (rat \<times> pin) list \<Rightarrow> PinterestImage list \<times> string list \<Rightarrow>
   PinterestImage list \<times> string list" where
  "select_loop md5 limit [] acc = acc"
| "select_loop md5 limit ((score, p) # rest) (selected, selected_hashes) =
     (if length selected \<ge> limit then (selected, selected_hashes)
      else let pin_hash = compute_image_hash md5 p in
        if is_too_similar pin_hash selected_hashes
        then select_loop md5 limit rest (selected, selected_hashes)
        else select_loop md5 limit rest (selected @ [to_image p], selected_hashes @ [pin_hash]))"

definition select_best_images :: "(string \<Rightarrow> string) \<Rightarrow> pin list \<Rightarrow> PinterestImage list" where
  "select_best_images md5 pins =
     fst (select_loop md5 NUM_IMAGES_TO_RETURN (sort_scored (dedup_score pins [])) ([], []))"

text \<open>The fingerprint of a returned image: the hash of its dictionary form.\<close>

definition fingerprint :: "(string \<Rightarrow> string) \<Rightarrow> PinterestImage \<Rightarrow> string" where
  "fingerprint md5 i = compute_image_hash md5 (model_dump i)"

subsection \<open>The score as the specification words it\<close>

text \<open>
  The terms of the specification's formula, written from its words, to be compared with
  \<open>score_pin\<close>. A dimension is known when it is present and not zero: the source reads
  a missing dimension as \<open>0\<close>.
\<close>

definition known :: "int option \<Rightarrow> bool" where
  "known d = (d \<noteq> None \<and> d \<noteq> Some 0)"









section \<open>JSON values\<close>

text \<open>What \<open>json.loads\<close> and \<open>response.json()\<close> return; a dictionary keeps its items in a list.\<close>

datatype jv =
    JNull
  | JBool bool
  | JInt int
  | JFloat rat
  | JStr string
  | JList "jv list"
  | JDict "(string \<times> jv) list"

fun is_dict :: "jv \<Rightarrow> bool" where
  "is_dict (JDict _) = True"
| "is_dict _ = False"

text \<open>Truthiness of a value: \<open>None\<close>, \<open>False\<close>, zero and the empty containers are false.\<close>

fun truthy :: "jv \<Rightarrow> bool" where
  "truthy JNull = False"
| "truthy (JBool b) = b"
| "truthy (JInt n) = (n \<noteq> 0)"
| "truthy (JFloat x) = (x \<noteq> 0)"
| "truthy (JStr s) = (s \<noteq> [])"
| "truthy (JList xs) = (xs \<noteq> [])"
| "truthy (JDict kvs) = (kvs \<noteq> [])"

text \<open>\<open>d.get(key, default)\<close> on the items of a dictionary.\<close>

definition dict_get :: "(string \<times> jv) list \<Rightarrow> string \<Rightarrow> jv \<Rightarrow> jv" where
  "dict_get kvs key dflt = (case map_of kvs key of None \<Rightarrow> dflt | Some v \<Rightarrow> v)"

section \<open>app/core/providers/litellm: schemas.py and client.py\<close>

record FallbackConfig =
  enabled :: bool
  fallback_model :: string
  max_retries :: int
  retry_exceptions :: "string list"

definition default_retry_exceptions :: "string list" where
  "default_retry_exceptions =
     [''RateLimitError'', ''APIConnectionError'', ''Timeout'', ''ServiceUnavailableError'']"

text \<open>A message is its role and its content.\<close>

record CompletionRequest =
  messages :: "(string \<times> string) list"
  model :: "string option"
  temperature :: rat
  max_tokens :: int
  json_mode :: bool
  timeout :: "int option"

record UsageInfo =
  prompt_tokens :: int
  completion_tokens :: int
  total_tokens :: int

text \<open>The field \<open>model\<close> of the response is \<open>response_model\<close> here, apart from the request's.\<close>

record CompletionResponse =
  content :: string
  response_model :: string
  usage :: UsageInfo
  fallback_used :: bool
  parsed :: "(string \<times> jv) list option"

record LiteLLMClient =
  primary_model :: string
  fallback_config :: FallbackConfig
  client_timeout :: int

text \<open>
  The keyword arguments of \<open>litellm.acompletion\<close> and what the code reads of its
  answer: the content of each choice's message, and the usage.
\<close>

record acompletion_kwargs =
  kw_model :: string
  kw_messages :: "(string \<times> string) list"
  kw_temperature :: rat
  kw_max_tokens :: int
  kw_timeout :: int
  kw_num_retries :: int
  kw_response_format_json :: bool

record litellm_response =
  choices :: "string option list"
  response_usage :: "UsageInfo option"

text \<open>
  The libraries the client calls: \<open>litellm.acompletion\<close>, whose outcome may depend on the
  calls made before (the log); \<open>json.loads\<close>, \<open>None\<close> for a \<open>JSONDecodeError\<close>; and the
  text of pydantic's error for a \<open>parsed\<close> value that is not a dictionary.
\<close>

record llm_env =
  acompletion :: "acompletion_kwargs list \<Rightarrow> acompletion_kwargs \<Rightarrow> exn + litellm_response"
  json_loads :: "string \<Rightarrow> jv option"
  validation_message :: "jv \<Rightarrow> string"

definition build_kwargs :: "LiteLLMClient \<Rightarrow> CompletionRequest \<Rightarrow> string \<Rightarrow> acompletion_kwargs" where
  "build_kwargs client request m =
     \<lparr>kw_model = m,
      kw_messages = messages request,
      kw_temperature = temperature request,
      kw_max_tokens = max_tokens request,
      kw_timeout = (case timeout request of
                      None \<Rightarrow> client_timeout client
                    | Some t \<Rightarrow> if t \<noteq> 0 then t else client_timeout client),
      kw_num_retries = max_retries (fallback_config client),
      kw_response_format_json = json_mode request\<rparr>"

definition usage_of :: "UsageInfo option \<Rightarrow> UsageInfo" where
  "usage_of u =
     (case u of
        None \<Rightarrow> \<lparr>prompt_tokens = 0, completion_tokens = 0, total_tokens = 0\<rparr>
      | Some v \<Rightarrow> v)"

text \<open>
  \<open>_complete_with_model\<close>: one call of the library, appended to the log, and the
  response built from its answer.
\<close>

definition complete_with_model ::
  "llm_env \<Rightarrow> LiteLLMClient \<Rightarrow> CompletionRequest \<Rightarrow> string \<Rightarrow> bool \<Rightarrow> acompletion_kwargs list \<Rightarrow>
   (exn + CompletionResponse) \<times> acompletion_kwargs list" where
  "complete_with_model env client request m fb calls =
     (let kwargs = build_kwargs client request m;
          calls' = calls @ [kwargs]
      in case acompletion env calls kwargs of
           Inl e \<Rightarrow> (Inl e, calls')
         | Inr response \<Rightarrow>
             (case choices response of
                [] \<Rightarrow> (Inl (Exception ''IndexError'' ''list index out of range''), calls')
              | c # _ \<Rightarrow>
                  (let text = (case c of None \<Rightarrow> [] | Some t \<Rightarrow> t);
                       decoded = (if json_mode request then json_loads env text else None);
                       built = \<lparr>content = text, response_model = m,
                                usage = usage_of (response_usage response),
                                fallback_used = fb, parsed = None\<rparr>
                   in case decoded of
                        None \<Rightarrow> (Inr built, calls')
                      | Some JNull \<Rightarrow> (Inr built, calls')
                      | Some (JDict kvs) \<Rightarrow> (Inr (built\<lparr>parsed := Some kvs\<rparr>), calls')
                      | Some v \<Rightarrow> (Inl (Exception ''ValidationError'' (validation_message env v)), calls'))))"

definition transient_indicators :: "string list" where
  "transient_indicators =
     [''rate limit'', ''timeout'', ''connection'', ''unavailable'', ''overloaded'',
      ''429'', ''503'', ''502'']"

definition should_fallback :: "LiteLLMClient \<Rightarrow> exn \<Rightarrow> bool" where
  "should_fallback client error =
     (list_ex (\<lambda>exc_name. contains exc_name (type_name error)
                 \<or> contains (lower exc_name) (lower (py_str error)))
        (retry_exceptions (fallback_config client))
      \<or> list_ex (\<lambda>indicator. contains indicator (lower (py_str error))) transient_indicators)"

definition both_failed_message :: "string \<Rightarrow> string \<Rightarrow> exn \<Rightarrow> exn \<Rightarrow> string" where
  "both_failed_message m fm primary_error fallback_error =
     ''Both primary ('' @ m @ '') and fallback ('' @ fm @ '') models failed. ''
       @ ''Primary error: '' @ py_str primary_error @ ''. Fallback error: '' @ py_str fallback_error"

text \<open>
  \<open>complete\<close>, from the request on (the request is built from \<open>messages\<close> when none is
  given, and \<open>ValueError\<close> is raised when both are missing; the extra keyword arguments of
  that constructor are left out).
\<close>

definition model_or_primary :: "LiteLLMClient \<Rightarrow> CompletionRequest \<Rightarrow> string" where
  "model_or_primary client request =
     (case model request of
        None \<Rightarrow> primary_model client
      | Some m \<Rightarrow> if m \<noteq> [] then m else primary_model client)"

definition complete_request ::
  "llm_env \<Rightarrow> LiteLLMClient \<Rightarrow> CompletionRequest \<Rightarrow> acompletion_kwargs list \<Rightarrow>
   (exn + CompletionResponse) \<times> acompletion_kwargs list" where
  "complete_request env client request calls =
     (let m = model_or_primary client request in
      case complete_with_model env client request m False calls of
        (Inr r, calls1) \<Rightarrow> (Inr r, calls1)
      | (Inl primary_error, calls1) \<Rightarrow>
          if \<not> is_Exception primary_error then (Inl primary_error, calls1)
          else if \<not> enabled (fallback_config client) then (Inl primary_error, calls1)
          else if \<not> should_fallback client primary_error then (Inl primary_error, calls1)
          else
            (let fm = fallback_model (fallback_config client) in
             case complete_with_model env client request fm True calls1 of
               (Inr r, calls2) \<Rightarrow> (Inr r, calls2)
             | (Inl fallback_error, calls2) \<Rightarrow>
                 if \<not> is_Exception fallback_error then (Inl fallback_error, calls2)
                 else (Inl (RuntimeError (both_failed_message m fm primary_error fallback_error)
                              fallback_error), calls2)))"

definition litellm_complete ::
  "llm_env \<Rightarrow> LiteLLMClient \<Rightarrow> (string \<times> string) list option \<Rightarrow> CompletionRequest option \<Rightarrow>
   acompletion_kwargs list \<Rightarrow> (exn + CompletionResponse) \<times> acompletion_kwargs list" where
  "litellm_complete env client msgs request calls =
     (case request of
        Some r \<Rightarrow> complete_request env client r calls
      | None \<Rightarrow>
          (case msgs of
             None \<Rightarrow> (Inl (Exception ''ValueError'' ''Either messages or request must be provided''), calls)
           | Some ms \<Rightarrow>
               complete_request env client
                 \<lparr>messages = ms, model = None, temperature = 7 / 10, max_tokens = 2048,
                  json_mode = False, timeout = None\<rparr> calls))"

section \<open>app/temporal/activities/tools.py: the tool activity as the workflow sees it\<close>

text \<open>
  The parameters that the workflow passes to the Pinterest scraper, and the activity's
  output. \<open>output_data\<close> is its field \<open>output\<close>: the dictionary \<open>result.model_dump()\<close> of the scraper's output, or
  the empty dictionary that the activity returns when the tool raised.
\<close>

record scraper_params =
  search_query :: string
  search_type :: string
  pages :: int

record ExecuteToolInput =
  input_tool_id :: string
  params :: scraper_params

datatype tool_output =
    EmptyOutput
  | OutputDump (dump_success: bool) (dump_error: "string option") (dump_pins: "pin list")
      (dump_total: int) (dump_query: string)

record ExecuteToolOutput =
  tool_id :: string
  success :: bool
  output_data :: tool_output
  tool_error :: "string option"

section \<open>slideshows_pinterest.py: queries and scraping\<close>

definition PAGES_PER_QUERY :: int where
  "PAGES_PER_QUERY = 2"

definition dquote :: string where
  "dquote = [CHR 0x22]"

text \<open>\<open>f'{x}'\<close> for an optional string: \<open>None\<close> prints as \<open>None\<close>.\<close>

definition str_opt :: "string option \<Rightarrow> string" where
  "str_opt v = (case v of None \<Rightarrow> ''None'' | Some t \<Rightarrow> t)"

definition error_entry :: "string \<Rightarrow> string \<Rightarrow> string" where
  "error_entry q text = ''Query '' @ dquote @ q @ dquote @ '': '' @ text"

text \<open>
  The loop of \<open>_scrape_pinterest\<close> over \<open>enumerate(results)\<close>, on the pair
  (all_pins, errors); \<open>results\<close> has one entry per query, an exception or the activity's
  output.
\<close>

fun collect_results ::
  "string list \<Rightarrow> (exn + ExecuteToolOutput) list \<Rightarrow> pin list \<times> string list \<Rightarrow>
   pin list \<times> string list" where
  "collect_results (q # qs) (result # rs) (all_pins, errors) =
     (case result of
        Inl e \<Rightarrow> collect_results qs rs (all_pins, errors @ [error_entry q (py_str e)])
      | Inr r \<Rightarrow>
          if \<not> success r
          then collect_results qs rs (all_pins, errors @ [error_entry q (str_opt (tool_error r))])
          else (case output_data r of
                  EmptyOutput \<Rightarrow> collect_results qs rs (all_pins, errors)
                | OutputDump _ _ ps _ _ \<Rightarrow> collect_results qs rs (all_pins @ ps, errors)))"
| "collect_results _ _ acc = acc"

definition scraper_input :: "string \<Rightarrow> ExecuteToolInput" where
  "scraper_input q =
     \<lparr>input_tool_id = ''gptmarket-pinterest-scraper'',
      params = \<lparr>search_query = q, search_type = ''social_media'', pages = PAGES_PER_QUERY\<rparr>\<rparr>"

text \<open>
  \<open>_scrape_pinterest\<close>. \<open>execute_tool\<close> is the activity run by the host under its
  retry policy: it returns an output or raises. \<open>asyncio.gather(..., return_exceptions=True)\<close>
  gives every branch's outcome, in the order of the queries.
\<close>

definition scrape_pinterest ::
  "(ExecuteToolInput \<Rightarrow> exn + ExecuteToolOutput) \<Rightarrow> string list \<Rightarrow> exn + pin list" where
  "scrape_pinterest execute_tool queries =
     (let results = map (\<lambda>q. execute_tool (scraper_input q)) queries in
      case collect_results queries results ([], []) of
        (all_pins, errors) \<Rightarrow>
          if all_pins = [] \<and> errors \<noteq> []
          then Inl (ApplicationError (''All Pinterest queries failed: '' @ join ''; '' errors) True)
          else Inr all_pins)"

text \<open>A branch by its outcome: whether it failed, the pins it gave, its entry in the message.\<close>

definition branch_failed :: "exn + ExecuteToolOutput \<Rightarrow> bool" where
  "branch_failed result = (case result of Inl e \<Rightarrow> True | Inr r \<Rightarrow> \<not> success r)"

definition branch_pins :: "exn + ExecuteToolOutput \<Rightarrow> pin list" where
  "branch_pins result =
     (case result of
        Inl e \<Rightarrow> []
      | Inr r \<Rightarrow> if success r
                 then (case output_data r of EmptyOutput \<Rightarrow> [] | OutputDump _ _ ps _ _ \<Rightarrow> ps)
                 else [])"

definition branch_error :: "string \<Rightarrow> exn + ExecuteToolOutput \<Rightarrow> string" where
  "branch_error q result =
     (case result of
        Inl e \<Rightarrow> error_entry q (py_str e)
      | Inr r \<Rightarrow> error_entry q (str_opt (tool_error r)))"

text \<open>
  The end of \<open>_generate_queries\<close>: the queries read from the response, or the prompt
  alone. The result is the value returned: a list, or the first characters of a string
  when \<open>queries\<close> is one. Slicing a number or a boolean raises \<open>TypeError\<close>; slicing a
  dictionary raises too (\<open>TypeError\<close>, \<open>KeyError\<close> from Python 3.12 on). The messages are
  written without their quotation marks.
\<close>

definition slice_queries :: "jv \<Rightarrow> exn + jv" where
  "slice_queries queries =
     (case queries of
        JList xs \<Rightarrow> Inr (JList (take NUM_QUERIES xs))
      | JStr t \<Rightarrow> Inr (JStr (take NUM_QUERIES t))
      | JDict kvs \<Rightarrow> Inl (Exception ''TypeError'' ''unhashable type: slice'')
      | JInt n \<Rightarrow> Inl (Exception ''TypeError'' ''int object is not subscriptable'')
      | JBool b \<Rightarrow> Inl (Exception ''TypeError'' ''bool object is not subscriptable'')
      | JFloat x \<Rightarrow> Inl (Exception ''TypeError'' ''float object is not subscriptable'')
      | JNull \<Rightarrow> Inl (Exception ''TypeError'' ''NoneType object is not subscriptable''))"

definition parse_queries :: "CompletionResponse \<Rightarrow> string \<Rightarrow> exn + jv" where
  "parse_queries response prompt =
     (case parsed response of
        None \<Rightarrow> Inr (JList [JStr prompt])
      | Some kvs \<Rightarrow>
          if kvs \<noteq> [] then
            (let queries = dict_get kvs ''queries'' (JList []) in
             if truthy queries then slice_queries queries
             else Inr (JList [JStr prompt]))
          else Inr (JList [JStr prompt]))"

text \<open>
  \<open>_generate_queries\<close>; \<open>generate_json\<close> is the activity, as a function of the prompt
  from which the request is written.
\<close>

definition generate_queries ::
  "(string \<Rightarrow> exn + CompletionResponse) \<Rightarrow> string \<Rightarrow> exn + jv" where
  "generate_queries generate_json prompt =
     (case generate_json prompt of
        Inl e \<Rightarrow> Inl e
      | Inr response \<Rightarrow> parse_queries response prompt)"

section \<open>app/core/ai_models/common.py and app/core/tools/gptmarket/pinterest.py\<close>

datatype AspectRatio =
    PORTRAIT_9_16 | PORTRAIT_9_21 | PORTRAIT_3_4 | PORTRAIT_2_3
  | LANDSCAPE_16_9 | LANDSCAPE_21_9 | LANDSCAPE_4_3 | LANDSCAPE_3_2
  | SQUARE

fun aspect_value :: "AspectRatio \<Rightarrow> string" where
  "aspect_value PORTRAIT_9_16 = ''9:16''"
| "aspect_value PORTRAIT_9_21 = ''9:21''"
| "aspect_value PORTRAIT_3_4 = ''3:4''"
| "aspect_value PORTRAIT_2_3 = ''2:3''"
| "aspect_value LANDSCAPE_16_9 = ''16:9''"
| "aspect_value LANDSCAPE_21_9 = ''21:9''"
| "aspect_value LANDSCAPE_4_3 = ''4:3''"
| "aspect_value LANDSCAPE_3_2 = ''3:2''"
| "aspect_value SQUARE = ''1:1''"

record GptMarketPinterestPin =
  gp_id :: string
  gp_title :: "string option"
  gp_description :: "string option"
  gp_image_url :: string
  gp_aspect_ratio :: AspectRatio
  gp_image_width :: "int option"
  gp_image_height :: "int option"

record GptMarketPinterestScraperOutput =
  out_success :: bool
  out_error :: "string option"
  out_pins :: "GptMarketPinterestPin list"
  out_total :: int
  out_query :: string

record gptmarket_config =
  GPTMARKET_API_KEY :: "string option"
  GPTMARKET_API_URL :: string

text \<open>
  What the libraries decide: the text of \<open>str(v)\<close> for a float, a list or a dictionary;
  pydantic's conversion to \<open>int\<close> of a value that is neither \<open>None\<close> nor an integer
  (\<open>None\<close> when it refuses); and the text of its \<open>ValidationError\<close>.
\<close>

record py_env =
  repr_of :: "jv \<Rightarrow> string"
  lax_int :: "jv \<Rightarrow> int option"
  validation_text :: "jv \<Rightarrow> string"

definition str_value :: "py_env \<Rightarrow> jv \<Rightarrow> string" where
  "str_value env v =
     (case v of
        JStr t \<Rightarrow> t
      | JInt n \<Rightarrow> str_int n
      | JNull \<Rightarrow> ''None''
      | JBool b \<Rightarrow> (if b then ''True'' else ''False'')
      | _ \<Rightarrow> repr_of env v)"

fun type_word :: "jv \<Rightarrow> string" where
  "type_word JNull = ''NoneType''"
| "type_word (JBool _) = ''bool''"
| "type_word (JInt _) = ''int''"
| "type_word (JFloat _) = ''float''"
| "type_word (JStr _) = ''str''"
| "type_word (JList _) = ''list''"
| "type_word (JDict _) = ''dict''"

text \<open>
  Validation of a field of the pin model: the outer \<open>None\<close> is a \<open>ValidationError\<close>.
  The argument is what \<open>pin_data.get(key)\<close> gave, \<open>None\<close> for a missing key.
\<close>

definition validate_opt_str :: "jv option \<Rightarrow> string option option" where
  "validate_opt_str v =
     (case v of
        None \<Rightarrow> Some None
      | Some JNull \<Rightarrow> Some None
      | Some (JStr t) \<Rightarrow> Some (Some t)
      | Some _ \<Rightarrow> None)"

definition validate_str :: "jv \<Rightarrow> string option" where
  "validate_str v = (case v of JStr t \<Rightarrow> Some t | _ \<Rightarrow> None)"

definition validate_int :: "py_env \<Rightarrow> jv \<Rightarrow> int option" where
  "validate_int env v = (case v of JInt n \<Rightarrow> Some n | _ \<Rightarrow> lax_int env v)"

definition validate_opt_int :: "py_env \<Rightarrow> jv option \<Rightarrow> int option option" where
  "validate_opt_int env v =
     (case v of
        None \<Rightarrow> Some None
      | Some JNull \<Rightarrow> Some None
      | Some w \<Rightarrow> map_option Some (validate_int env w))"

text \<open>
  The body of the loop over \<open>raw_pins\<close>: the pin built from one element, or \<open>None\<close>
  when the element is skipped, by \<open>continue\<close> or by an exception that the loop swallows
  (an element that is no dictionary has no \<open>get\<close>; a field fails validation).
\<close>

definition parse_pin :: "py_env \<Rightarrow> jv \<Rightarrow> GptMarketPinterestPin option" where
  "parse_pin env pin_data =
     (case pin_data of
        JDict kvs \<Rightarrow>
          if dict_get kvs ''aspect_ratio'' (JStr []) \<noteq> JStr (aspect_value PORTRAIT_9_16) then None
          else
            (case (validate_opt_str (map_of kvs ''title''),
                   validate_opt_str (map_of kvs ''description''),
                   validate_str (dict_get kvs ''image_url'' (JStr [])),
                   validate_opt_int env (map_of kvs ''image_width''),
                   validate_opt_int env (map_of kvs ''image_height'')) of
               (Some t, Some d, Some u, Some w, Some h) \<Rightarrow>
                 Some \<lparr>gp_id = str_value env (dict_get kvs ''id'' (JStr [])),
                       gp_title = t, gp_description = d, gp_image_url = u,
                       gp_aspect_ratio = PORTRAIT_9_16,
                       gp_image_width = w, gp_image_height = h\<rparr>
             | _ \<Rightarrow> None)
      | _ \<Rightarrow> None)"

fun parse_pins :: "py_env \<Rightarrow> jv list \<Rightarrow> GptMarketPinterestPin list \<Rightarrow> GptMarketPinterestPin list" where
  "parse_pins env [] acc = acc"
| "parse_pins env (pin_data # rest) acc =
     (case parse_pin env pin_data of
        None \<Rightarrow> parse_pins env rest acc
      | Some p \<Rightarrow> parse_pins env rest (acc @ [p]))"

text \<open>What \<open>for pin_data in raw_pins\<close> walks, or the \<open>TypeError\<close> of a value that is not iterable.\<close>

definition iterate :: "jv \<Rightarrow> exn + jv list" where
  "iterate v =
     (case v of
        JList xs \<Rightarrow> Inr xs
      | JDict kvs \<Rightarrow> Inr (map (\<lambda>kv. JStr (fst kv)) kvs)
      | JStr t \<Rightarrow> Inr (map (\<lambda>c. JStr [c]) t)
      | _ \<Rightarrow> Inl (Exception ''TypeError'' (type_word v @ '' object is not iterable'')))"

text \<open>\<open>v.get(key, default)\<close> on any value: only a dictionary has \<open>get\<close>.\<close>

definition get_or_raise :: "jv \<Rightarrow> string \<Rightarrow> jv \<Rightarrow> exn + jv" where
  "get_or_raise v key dflt =
     (case v of
        JDict kvs \<Rightarrow> Inr (dict_get kvs key dflt)
      | _ \<Rightarrow> Inl (Exception ''AttributeError'' (type_word v @ '' object has no attribute get'')))"

definition failure :: "string \<Rightarrow> string \<Rightarrow> GptMarketPinterestScraperOutput" where
  "failure msg q = \<lparr>out_success = False, out_error = Some msg, out_pins = [], out_total = 0, out_query = q\<rparr>"

text \<open>The part of \<open>execute\<close> after the response was decoded.\<close>

definition parse_response :: "py_env \<Rightarrow> jv \<Rightarrow> string \<Rightarrow> exn + GptMarketPinterestScraperOutput" where
  "parse_response env data q =
     (case get_or_raise data ''data'' (JDict []) of
        Inl e \<Rightarrow> Inl e
      | Inr inner_data \<Rightarrow>
     (case get_or_raise inner_data ''data'' (JDict []) of
        Inl e \<Rightarrow> Inl e
      | Inr pins_data \<Rightarrow>
     (case get_or_raise inner_data ''metadata'' (JDict []) of
        Inl e \<Rightarrow> Inl e
      | Inr metadata \<Rightarrow>
     (case get_or_raise pins_data ''pins'' (JList []) of
        Inl e \<Rightarrow> Inl e
      | Inr raw_pins \<Rightarrow>
     (case iterate raw_pins of
        Inl e \<Rightarrow> Inl e
      | Inr items \<Rightarrow>
          (let found = parse_pins env items [] in
           case get_or_raise metadata ''total_pins'' (JInt (int (length found))) of
             Inl e \<Rightarrow> Inl e
           | Inr total_pins \<Rightarrow>
          (case get_or_raise metadata ''search_query'' (JStr q) of
             Inl e \<Rightarrow> Inl e
           | Inr query \<Rightarrow>
          (case (validate_int env total_pins, validate_str query) of
             (Some n, Some t) \<Rightarrow>
               Inr \<lparr>out_success = True, out_error = None, out_pins = found,
                    out_total = n, out_query = t\<rparr>
           | _ \<Rightarrow>
               Inl (Exception ''ValidationError''
                      (validation_text env (JList [total_pins, query])))))))))))"

text \<open>
  The request, and what \<open>client.post\<close>, \<open>raise_for_status\<close> and \<open>response.json()\<close>
  come to: one of the three exceptions of httpx that \<open>execute\<close> catches, another
  exception, a body that is not JSON, or the decoded body.
\<close>

record http_request =
  http_url :: string
  http_api_key :: string
  http_payload :: scraper_params

datatype http_result =
    TimeoutException
  | HTTPStatusError int string
  | RequestError string
  | OtherError exn
  | InvalidJson
  | JsonBody jv

definition execute ::
  "gptmarket_config \<Rightarrow> py_env \<Rightarrow> (http_request \<Rightarrow> http_result) \<Rightarrow> scraper_params \<Rightarrow>
   exn + GptMarketPinterestScraperOutput" where
  "execute cfg env post inp =
     (case GPTMARKET_API_KEY cfg of
        None \<Rightarrow> Inr (failure ''GPTMARKET_API_KEY is not configured'' (search_query inp))
      | Some api_key \<Rightarrow>
          if api_key = [] then Inr (failure ''GPTMARKET_API_KEY is not configured'' (search_query inp))
          else
            (case post \<lparr>http_url = GPTMARKET_API_URL cfg @ ''/v1/scraping/pins'',
                        http_api_key = api_key, http_payload = inp\<rparr> of
               TimeoutException \<Rightarrow> Inr (failure ''Request timed out'' (search_query inp))
             | HTTPStatusError code body \<Rightarrow>
                 Inr (failure (''API error: '' @ str_int code @ '' - '' @ body) (search_query inp))
             | RequestError msg \<Rightarrow> Inr (failure (''Request failed: '' @ msg) (search_query inp))
             | OtherError e \<Rightarrow> Inl e
             | InvalidJson \<Rightarrow> Inr (failure ''Invalid JSON response from API'' (search_query inp))
             | JsonBody data \<Rightarrow> parse_response env data (search_query inp)))"

text \<open>
  The pin as the workflow reads it from the activity's output: \<open>model_dump\<close>, the aspect
  ratio serialised to its value.
\<close>

definition dump_pin :: "GptMarketPinterestPin \<Rightarrow> pin" where
  "dump_pin p =
     \<lparr>pin_id = Some (gp_id p), title = gp_title p, description = gp_description p,
      image_url = Some (gp_image_url p), aspect_ratio = Some (aspect_value (gp_aspect_ratio p)),
      image_width = gp_image_width p, image_height = gp_image_height p\<rparr>"

text \<open>
  \<open>validate_input\<close> on the parameters, by the constraints of the input model: a
  non-empty query and 1 to 10 pages.
\<close>

definition valid_params :: "scraper_params \<Rightarrow> bool" where
  "valid_params inp = (search_query inp \<noteq> [] \<and> 1 \<le> pages inp \<and> pages inp \<le> 10)"

text \<open>
  The activity \<open>execute_tool\<close> on the Pinterest scraper: the tool found in the registry,
  its input validated, the tool run, and every \<open>Exception\<close> turned into a failed output
  with the empty dictionary.
\<close>

definition execute_tool_activity ::
  "gptmarket_config \<Rightarrow> py_env \<Rightarrow> (http_request \<Rightarrow> http_result) \<Rightarrow> ExecuteToolInput \<Rightarrow>
   exn + ExecuteToolOutput" where
  "execute_tool_activity cfg env post inp =
     (if \<not> valid_params (params inp) then
        Inr \<lparr>tool_id = input_tool_id inp, success = False, output_data = EmptyOutput,
             tool_error = Some (validation_text env
               (JDict [(''search_query'', JStr (search_query (params inp))),
                       (''search_type'', JStr (search_type (params inp))),
                       (''pages'', JInt (pages (params inp)))]))\<rparr>
      else case execute cfg env post (params inp) of
        Inl e \<Rightarrow>
          if is_Exception e then
            Inr \<lparr>tool_id = input_tool_id inp, success = False, output_data = EmptyOutput,
                 tool_error = Some (py_str e)\<rparr>
          else Inl e
      | Inr result \<Rightarrow>
          Inr \<lparr>tool_id = input_tool_id inp, success = out_success result,
               output_data = OutputDump (out_success result) (out_error result)
                 (map dump_pin (out_pins result)) (out_total result) (out_query result),
               tool_error = out_error result\<rparr>)"

section \<open>base.py: activities and the rewriting helpers; generations/ruby.py\<close>

text \<open>
  The inputs of the activities that the Ruby workflow runs, with the fields that the
  workflow sets (their constructors are taken to accept the values). Field names that
  another record already has carry a prefix.
\<close>

record UGCPersonInput =
  ugc_gender :: string
  ugc_age_range :: string
  ugc_emotion :: string
  ugc_style :: string
  ugc_background :: string
  ugc_hair_color :: string
  ugc_ethnicity :: string
  ugc_clothing :: string
  ugc_context :: "string option"

record UGCVideoReactionInput =
  reaction_emotion :: string
  reaction_context :: "string option"
  reaction_duration :: int

record SlowDownVideoInput =
  slow_video_url :: string
  speed_factor :: rat
  preserve_audio :: bool
  slow_output_folder :: string

record TextOverlayActivityInput =
  overlay_video_url :: string
  overlay_text :: string
  overlay_position :: string
  overlay_font :: string
  font_color :: string
  font_scale_factor :: rat
  background_color :: "string option"
  padding :: int
  border_width :: int
  border_color :: string
  max_chars_per_line :: int
  overlay_output_folder :: string

record RewriteVideoInput =
  rewrite_video_url :: string
  playback_speed :: rat
  rewrite_video_device :: "string option"

record RewriteImagesInput =
  rewrite_image_urls :: "string list"
  rewrite_images_device :: "string option"

record StorageUploadInput =
  upload_url :: string
  upload_folder :: string

datatype activity =
    GenerateUgcPerson UGCPersonInput
  | GenerateUgcVideoReaction UGCVideoReactionInput
  | GenerateImageWithModel string "(string \<times> jv) list"
  | GenerateVideoWithModel string "(string \<times> jv) list"
  | SlowDownVideo SlowDownVideoInput
  | AddTextOverlay TextOverlayActivityInput
  | RewriteVideo RewriteVideoInput
  | RewriteImages RewriteImagesInput
  | UploadToStorage StorageUploadInput

datatype retry_tier = FAST_RETRY | SLOW_RETRY | LONG_RETRY

text \<open>One call of \<open>run_activity\<close>: the activity with its arguments, the timeout, the retry policy.\<close>

record activity_call =
  called :: activity
  timeout_minutes :: rat
  retry_policy :: retry_tier

fun is_rewrite :: "activity \<Rightarrow> bool" where
  "is_rewrite (RewriteVideo _) = True"
| "is_rewrite (RewriteImages _) = True"
| "is_rewrite _ = False"

text \<open>
  The host that executes the activities, each under its timeout and retry policy: what an
  activity returns to the workflow (the field of its output that the workflow reads), or
  the exception raised when it has failed for good.
\<close>

record activities =
  generate_ugc_person :: "UGCPersonInput \<Rightarrow> exn + string"
  generate_ugc_video_reaction :: "UGCVideoReactionInput \<Rightarrow> exn + string"
  generate_image_with_model :: "string \<Rightarrow> (string \<times> jv) list \<Rightarrow> exn + string"
  generate_video_with_model :: "string \<Rightarrow> (string \<times> jv) list \<Rightarrow> exn + string"
  slow_down_video :: "SlowDownVideoInput \<Rightarrow> exn + string"
  add_text_overlay :: "TextOverlayActivityInput \<Rightarrow> exn + string"
  rewrite_video :: "RewriteVideoInput \<Rightarrow> exn + string"
  rewrite_images :: "RewriteImagesInput \<Rightarrow> exn + string list"
  upload_to_storage :: "StorageUploadInput \<Rightarrow> exn + string"

text \<open>
  The workflow code runs on the context and on the record of the calls made so far; a
  piece of it returns a value or raises. \<open>bind\<close> is sequencing: an exception ends the
  sequence.
\<close>

type_synonym 'a flow = "WorkflowContext \<Rightarrow> activity_call list \<Rightarrow> (exn + 'a) \<times> WorkflowContext \<times> activity_call list"

definition ret :: "'a \<Rightarrow> 'a flow" where
  "ret v ctx calls = (Inr v, ctx, calls)"

definition raise :: "exn \<Rightarrow> 'a flow" where
  "raise e ctx calls = (Inl e, ctx, calls)"

definition bind :: "'a flow \<Rightarrow> ('a \<Rightarrow> 'b flow) \<Rightarrow> 'b flow" where
  "bind m f ctx calls =
     (case m ctx calls of
        (Inl e, ctx', calls') \<Rightarrow> (Inl e, ctx', calls')
      | (Inr v, ctx', calls') \<Rightarrow> f v ctx' calls')"

text \<open>\<open>run_activity\<close>: the call is recorded and its outcome is the host's.\<close>

definition run_activity :: "activity \<Rightarrow> rat \<Rightarrow> retry_tier \<Rightarrow> (exn + 'a) \<Rightarrow> 'a flow" where
  "run_activity a minutes retry outcome ctx calls =
     (outcome, ctx, calls @ [\<lparr>called = a, timeout_minutes = minutes, retry_policy = retry\<rparr>])"

definition upload_output :: "activities \<Rightarrow> string \<Rightarrow> string \<Rightarrow> string flow" where
  "upload_output host u folder =
     run_activity (UploadToStorage \<lparr>upload_url = u, upload_folder = folder\<rparr>) 2 FAST_RETRY
       (upload_to_storage host \<lparr>upload_url = u, upload_folder = folder\<rparr>)"

definition maybe_rewrite_video ::
  "activities \<Rightarrow> string \<Rightarrow> 'a WorkflowInput_scheme \<Rightarrow> rat \<Rightarrow> string flow" where
  "maybe_rewrite_video host video_url inp speed =
     (if \<not> rewrite_enabled inp then ret video_url
      else
        run_activity
          (RewriteVideo \<lparr>rewrite_video_url = video_url, playback_speed = speed,
             rewrite_video_device = rewrite_device inp\<rparr>) 3 FAST_RETRY
          (rewrite_video host \<lparr>rewrite_video_url = video_url, playback_speed = speed,
             rewrite_video_device = rewrite_device inp\<rparr>))"

definition maybe_rewrite_images ::
  "activities \<Rightarrow> string list \<Rightarrow> 'a WorkflowInput_scheme \<Rightarrow> string list flow" where
  "maybe_rewrite_images host image_urls inp =
     (if \<not> rewrite_enabled inp \<or> image_urls = [] then ret image_urls
      else
        run_activity
          (RewriteImages \<lparr>rewrite_image_urls = image_urls,
             rewrite_images_device = rewrite_device inp\<rparr>) 3 FAST_RETRY
          (rewrite_images host \<lparr>rewrite_image_urls = image_urls,
             rewrite_images_device = rewrite_device inp\<rparr>))"

definition maybe_rewrite_image ::
  "activities \<Rightarrow> string \<Rightarrow> 'a WorkflowInput_scheme \<Rightarrow> string flow" where
  "maybe_rewrite_image host url inp =
     (if \<not> rewrite_enabled inp then ret url
      else
        bind (maybe_rewrite_images host [url] inp)
          (\<lambda>urls. case urls of
                     [] \<Rightarrow> raise (Exception ''IndexError'' ''list index out of range'')
                   | u # _ \<Rightarrow> ret u))"

text \<open>
  \<open>async with self._ctx.step(...)\<close> around a piece of workflow code, and the plain
  context calls, as pieces of workflow code.
\<close>

definition in_step :: "string \<Rightarrow> string \<Rightarrow> int \<Rightarrow> 'a flow \<Rightarrow> 'a flow" where
  "in_step sid sname pct body = step sid sname pct [] body"

definition do_start :: "app_config \<Rightarrow> 'a WorkflowInput_scheme \<Rightarrow> unit flow" where
  "do_start cfg inp ctx calls =
     (case start cfg inp ctx of
        (Some e, ctx') \<Rightarrow> (Inl e, ctx', calls)
      | (None, ctx') \<Rightarrow> (Inr (), ctx', calls))"

definition do_complete :: "unit flow" where
  "do_complete ctx calls = (Inr (), complete ctx, calls)"

record RubyInput = WorkflowInput +
  additional_prompt :: "string option"
  emotion :: string
  text_overlay :: "string option"
  gender :: string
  age_range :: string
  ethnicity :: string
  hair_color :: string
  style :: string
  background :: string
  clothing :: string
  input_aspect_ratio :: string
  video_duration :: int
  slowed_video :: bool
  image_model :: string
  video_model :: string
  image_model_params :: "(string \<times> jv) list"
  video_model_params :: "(string \<times> jv) list"

record RubyOutput =
  face_image_url :: string
  raw_video_url :: string
  final_video_url :: string
  enhanced_image_prompt :: string
  enhanced_video_prompt :: string
  output_image_model :: string
  output_video_model :: string

text \<open>\<open>AspectRatio(value)\<close>: the member with that value, or \<open>ValueError\<close>.\<close>

definition aspect_of_value :: "string \<Rightarrow> AspectRatio option" where
  "aspect_of_value v =
     find (\<lambda>a. aspect_value a = v)
       [PORTRAIT_9_16, PORTRAIT_9_21, PORTRAIT_3_4, PORTRAIT_2_3,
        LANDSCAPE_16_9, LANDSCAPE_21_9, LANDSCAPE_4_3, LANDSCAPE_3_2, SQUARE]"

text \<open>\<open>{**d, key: v}\<close> and \<open>{**d, **overrides}\<close> on the items of a dictionary.\<close>

fun dict_set :: "string \<Rightarrow> jv \<Rightarrow> (string \<times> jv) list \<Rightarrow> (string \<times> jv) list" where
  "dict_set k v [] = [(k, v)]"
| "dict_set k v ((k', v') # kvs) = (if k' = k then (k, v) # kvs else (k', v') # dict_set k v kvs)"

definition dict_merge :: "(string \<times> jv) list \<Rightarrow> (string \<times> jv) list \<Rightarrow> (string \<times> jv) list" where
  "dict_merge d overrides = foldl (\<lambda>acc kv. dict_set (fst kv) (snd kv) acc) d overrides"

text \<open>The steps of \<open>RubyWorkflow.run\<close>, in order.\<close>

definition prompts_step :: "activities \<Rightarrow> RubyInput \<Rightarrow> (string \<times> string) flow" where
  "prompts_step host inp =
     in_step ''prompts'' ''Generate Prompts'' 0
       (let person = \<lparr>ugc_gender = gender inp, ugc_age_range = age_range inp,
                       ugc_emotion = emotion inp, ugc_style = style inp,
                       ugc_background = background inp, ugc_hair_color = hair_color inp,
                       ugc_ethnicity = ethnicity inp, ugc_clothing = clothing inp,
                       ugc_context = additional_prompt inp\<rparr>;
            reaction = \<lparr>reaction_emotion = emotion inp, reaction_context = additional_prompt inp,
                         reaction_duration = video_duration inp\<rparr>
        in bind (run_activity (GenerateUgcPerson person) 2 FAST_RETRY (generate_ugc_person host person))
             (\<lambda>image_prompt.
                bind (run_activity (GenerateUgcVideoReaction reaction) 2 FAST_RETRY
                        (generate_ugc_video_reaction host reaction))
                  (\<lambda>video_prompt. ret (image_prompt, video_prompt))))"

definition image_params_of :: "RubyInput \<Rightarrow> AspectRatio \<Rightarrow> string \<Rightarrow> (string \<times> jv) list" where
  "image_params_of inp ratio image_prompt =
     dict_merge [(''prompt'', JStr image_prompt), (''aspect_ratio'', JStr (aspect_value ratio))]
       (image_model_params inp)"

definition face_step :: "activities \<Rightarrow> RubyInput \<Rightarrow> AspectRatio \<Rightarrow> string \<Rightarrow> string flow" where
  "face_step host inp ratio image_prompt =
     in_step ''face'' ''Generate Face'' 10
       (run_activity (GenerateImageWithModel (image_model inp) (image_params_of inp ratio image_prompt))
          3 SLOW_RETRY
          (generate_image_with_model host (image_model inp) (image_params_of inp ratio image_prompt)))"

definition video_params_of ::
  "RubyInput \<Rightarrow> AspectRatio \<Rightarrow> string \<Rightarrow> string \<Rightarrow> (string \<times> jv) list" where
  "video_params_of inp ratio video_prompt face_url =
     dict_merge [(''prompt'', JStr video_prompt), (''image'', JStr face_url),
                 (''duration'', JInt (video_duration inp)),
                 (''aspect_ratio'', JStr (aspect_value ratio)),
                 (''generate_audio'', JBool False)]
       (video_model_params inp)"

definition video_step :: "activities \<Rightarrow> RubyInput \<Rightarrow> AspectRatio \<Rightarrow> string \<Rightarrow> string \<Rightarrow> string flow" where
  "video_step host inp ratio video_prompt face_url =
     in_step ''video'' ''Generate Video'' 30
       (run_activity
          (GenerateVideoWithModel (video_model inp) (video_params_of inp ratio video_prompt face_url))
          10 SLOW_RETRY
          (generate_video_with_model host (video_model inp)
             (video_params_of inp ratio video_prompt face_url)))"

definition slowmo_input :: "RubyInput \<Rightarrow> string \<Rightarrow> SlowDownVideoInput" where
  "slowmo_input inp raw_url =
     \<lparr>slow_video_url = raw_url, speed_factor = 7 / 10, preserve_audio = False,
      slow_output_folder = (if truthy_str (text_overlay inp) then ''ruby/temp'' else ''ruby/videos'')\<rparr>"

definition slowmo_step :: "activities \<Rightarrow> RubyInput \<Rightarrow> string \<Rightarrow> string flow" where
  "slowmo_step host inp raw_url =
     (if slowed_video inp then
        in_step ''slowmo'' ''Apply Slow Motion'' 60
          (run_activity (SlowDownVideo (slowmo_input inp raw_url)) 5 FAST_RETRY
             (slow_down_video host (slowmo_input inp raw_url)))
      else ret raw_url)"

definition text_input :: "string \<Rightarrow> string \<Rightarrow> TextOverlayActivityInput" where
  "text_input final_url t =
     \<lparr>overlay_video_url = final_url, overlay_text = t, overlay_position = ''center'',
      overlay_font = ''DejaVu Sans Bold'', font_color = ''white'', font_scale_factor = 28,
      background_color = None, padding = 0, border_width = 4, border_color = ''black'',
      max_chars_per_line = 24, overlay_output_folder = ''ruby/videos''\<rparr>"

definition text_step :: "activities \<Rightarrow> RubyInput \<Rightarrow> string \<Rightarrow> string flow" where
  "text_step host inp final_url =
     (case text_overlay inp of
        None \<Rightarrow> ret final_url
      | Some t \<Rightarrow>
          if t = [] then ret final_url
          else in_step ''text'' ''Add Text'' 80
                 (run_activity (AddTextOverlay (text_input final_url t)) 5 FAST_RETRY
                    (add_text_overlay host (text_input final_url t))))"

definition rewrite_step :: "activities \<Rightarrow> RubyInput \<Rightarrow> string \<Rightarrow> string \<Rightarrow> (string \<times> string) flow" where
  "rewrite_step host inp face_url final_url =
     (if rewrite_enabled inp then
        in_step ''rewrite'' ''Rewrite Media'' 85
          (bind (maybe_rewrite_image host face_url inp)
             (\<lambda>face_url'. bind (maybe_rewrite_video host final_url inp 1)
                (\<lambda>final_url'. ret (face_url', final_url'))))
      else ret (face_url, final_url))"

definition upload_step :: "activities \<Rightarrow> string \<Rightarrow> string flow" where
  "upload_step host face_url =
     in_step ''upload'' ''Upload'' 90 (upload_output host face_url ''ruby/faces'')"

definition run :: "app_config \<Rightarrow> activities \<Rightarrow> RubyInput \<Rightarrow> RubyOutput flow" where
  "run cfg host inp =
     bind (do_start cfg inp) (\<lambda>_.
     case aspect_of_value (input_aspect_ratio inp) of
       None \<Rightarrow> raise (Exception ''ValueError'' (input_aspect_ratio inp @ '' is not a valid AspectRatio''))
     | Some ratio \<Rightarrow>
     bind (prompts_step host inp) (\<lambda>(image_prompt, video_prompt).
     bind (face_step host inp ratio image_prompt) (\<lambda>generated_face_url.
     bind (video_step host inp ratio video_prompt generated_face_url) (\<lambda>raw_url.
     bind (slowmo_step host inp raw_url) (\<lambda>slowed_url.
     bind (text_step host inp slowed_url) (\<lambda>overlaid_url.
     bind (rewrite_step host inp generated_face_url overlaid_url) (\<lambda>(face_url, final_url).
     bind (upload_step host face_url) (\<lambda>stored_face_url.
     bind do_complete (\<lambda>_.
     ret \<lparr>face_image_url = stored_face_url, raw_video_url = raw_url,
          final_video_url = final_url, enhanced_image_prompt = image_prompt,
          enhanced_video_prompt = video_prompt, output_image_model = image_model inp,
          output_video_model = video_model inp\<rparr>)))))))))"

definition run_workflow ::
  "app_config \<Rightarrow> activities \<Rightarrow> RubyInput \<Rightarrow> (exn + RubyOutput) \<times> WorkflowContext \<times> activity_call list" where
  "run_workflow cfg host inp = run cfg host inp init_context []"

subsection \<open>A client, a request and three libraries to run them on\<close>

definition demo_client :: LiteLLMClient where
  "demo_client =
     \<lparr>primary_model = ''gemini-flash'',
      fallback_config = \<lparr>enabled = True, fallback_model = ''gpt-mini'', max_retries = 2,
                          retry_exceptions = default_retry_exceptions\<rparr>,
      client_timeout = 60\<rparr>"

definition demo_request :: CompletionRequest where
  "demo_request =
     \<lparr>messages = [(''user'', ''Hello!'')], model = None, temperature = 7 / 10, max_tokens = 2048,
      json_mode = False, timeout = None\<rparr>"

definition demo_env :: "(string \<Rightarrow> exn + litellm_response) \<Rightarrow> llm_env" where
  "demo_env answer =
     \<lparr>acompletion = (\<lambda>calls kwargs. answer (kw_model kwargs)),
      json_loads = (\<lambda>s. None),
      validation_message = (\<lambda>v. [])\<rparr>"

definition demo_ok :: "string \<Rightarrow> exn + litellm_response" where
  "demo_ok m = Inr \<lparr>choices = [Some ''Hi''], response_usage = None\<rparr>"

definition demo_rate_limited :: "string \<Rightarrow> exn + litellm_response" where
  "demo_rate_limited m =
     (if m = ''gemini-flash'' then Inl (Exception ''RateLimitError'' ''quota exceeded'')
      else Inl (Exception ''APIError'' ''bad gateway''))"

definition demo_rejected :: "string \<Rightarrow> exn + litellm_response" where
  "demo_rejected m = Inl (Exception ''AuthenticationError'' ''invalid api key'')"

subsection \<open>A tool activity and a completion to run the workflow on\<close>



definition demo_response :: "jv \<Rightarrow> CompletionResponse" where
  "demo_response queries =
     \<lparr>content = [], response_model = ''gemini/gemini-2.0-flash-lite'',
      usage = \<lparr>prompt_tokens = 0, completion_tokens = 0, total_tokens = 0\<rparr>,
      fallback_used = False, parsed = Some [(''queries'', queries)]\<rparr>"

subsection \<open>A response of the scraping service\<close>

definition demo_py :: py_env where
  "demo_py = \<lparr>repr_of = (\<lambda>v. []), lax_int = (\<lambda>v. None), validation_text = (\<lambda>v. [])\<rparr>"

definition demo_config :: gptmarket_config where
  "demo_config = \<lparr>GPTMARKET_API_KEY = Some ''k'', GPTMARKET_API_URL = ''https://api''\<rparr>"

definition demo_raw_pin :: "string \<Rightarrow> jv \<Rightarrow> jv" where
  "demo_raw_pin ratio t =
     JDict [(''id'', JInt 41), (''title'', t), (''image_url'', JStr ''https://i/a.jpg''),
            (''aspect_ratio'', JStr ratio), (''image_width'', JInt 736), (''image_height'', JInt 1308)]"

definition demo_body :: jv where
  "demo_body =
     JDict [(''data'', JDict
       [(''data'', JDict [(''pins'',
           JList [demo_raw_pin ''9:16'' (JStr ''Cabin''), demo_raw_pin ''2:3'' (JStr ''Lake''),
                  demo_raw_pin ''9:16'' (JInt 5), JStr ''junk''])]),
        (''metadata'', JDict [(''total_pins'', JInt 4)])])]"

definition demo_post :: "http_request \<Rightarrow> http_result" where
  "demo_post request = JsonBody demo_body"

definition demo_output :: GptMarketPinterestScraperOutput where
  "demo_output =
     \<lparr>out_success = True, out_error = None,
      out_pins = [\<lparr>gp_id = ''41'', gp_title = Some ''Cabin'', gp_description = None,
                   gp_image_url = ''https://i/a.jpg'', gp_aspect_ratio = PORTRAIT_9_16,
                   gp_image_width = Some 736, gp_image_height = Some 1308\<rparr>],
      out_total = 4, out_query = ''cabin''\<rparr>"

subsection \<open>A host and an input to run the Ruby workflow on\<close>

definition demo_host :: activities where
  "demo_host =
     \<lparr>generate_ugc_person = (\<lambda>i. Inr ''a person''),
      generate_ugc_video_reaction = (\<lambda>i. Inr ''she gasps''),
      generate_image_with_model = (\<lambda>m ps. Inr ''gen/face.png''),
      generate_video_with_model = (\<lambda>m ps. Inr ''gen/video.mp4''),
      slow_down_video = (\<lambda>i. Inr ''r2/slow.mp4''),
      add_text_overlay = (\<lambda>i. Inr ''r2/text.mp4''),
      rewrite_video = (\<lambda>i. Inr ''rw/video.mp4''),
      rewrite_images = (\<lambda>i. Inr [''rw/face.png'']),
      upload_to_storage = (\<lambda>i. Inr ''r2/face.png'')\<rparr>"

definition demo_ruby_input :: RubyInput where
  "demo_ruby_input =
     \<lparr>secret_key = None, rewrite_enabled = False, rewrite_device = None,
      additional_prompt = None, emotion = ''shocked'', text_overlay = None,
      gender = ''female'', age_range = ''early_20s'', ethnicity = ''caucasian'',
      hair_color = ''brown'', style = ''coquette'', background = ''bedroom'',
      clothing = ''casual'', input_aspect_ratio = ''9:16'', video_duration = 5,
      slowed_video = True, image_model = ''nano-banana'', video_model = ''kling-v2.6'',
      image_model_params = [], video_model_params = []\<rparr>"

definition demo_app_config :: app_config where
  "demo_app_config = \<lparr>WORKFLOW_SECRET_ENABLED = False, WORKFLOW_SECRET_KEY = None\<rparr>"

definition demo_ruby_output :: RubyOutput where
  "demo_ruby_output =
     \<lparr>face_image_url = ''r2/face.png'', raw_video_url = ''gen/video.mp4'',
      final_video_url = ''r2/slow.mp4'', enhanced_image_prompt = ''a person'',
      enhanced_video_prompt = ''she gasps'', output_image_model = ''nano-banana'',
      output_video_model = ''kling-v2.6''\<rparr>"

text \<open>A piece of workflow code that neither calls a rewrite activity nor completes the rewrite step.\<close>

definition skips_rewrite :: "'a flow \<Rightarrow> bool" where
  "skips_rewrite m =
     (\<forall>ctx calls.
        (\<exists>more. snd (snd (m ctx calls)) = calls @ more \<and> list_all (\<lambda>c. \<not> is_rewrite (called c)) more)
        \<and> (''rewrite'' \<in> set (completed_steps (fst (snd (m ctx calls))))
             \<longrightarrow> ''rewrite'' \<in> set (completed_steps ctx)))"

section \<open>Properties of the workflow context\<close>

lemma status_step_enter: "status (step_enter sid sname pct msg ctx) = status ctx"
  by (simp add: step_enter_def)

lemma status_step_completed: "status (snd (step_completed sid ctx)) = status ctx"
  by (simp add: step_completed_def split: option.split)

lemma status_tracks_step: "tracks_step op \<Longrightarrow> status (apply_op cfg op ctx) = status ctx"
  by (cases op) (simp_all add: status_step_enter status_step_completed)

text \<open>
  C1. When authentication is required and the server key is not configured, or
  \<open>input.secret_key\<close> is absent or differs from it, \<open>start\<close> raises an
  \<open>ApplicationError\<close> with \<open>non_retryable=True\<close> and leaves the context as it was: a
  fresh context stays \<open>PENDING\<close> with no current step, and a run of the workflow ends
  there, with that error, the fresh context and no activity called. When authentication is
  not required, \<open>start\<close> raises nothing, whatever the secret key, and the status is
  \<open>RUNNING\<close>.
\<close>

theorem start_authentication:
  "(WORKFLOW_SECRET_ENABLED cfg \<and>
      (\<not> truthy_str (WORKFLOW_SECRET_KEY cfg) \<or> secret_key inp \<noteq> WORKFLOW_SECRET_KEY cfg)
     \<longrightarrow> (\<exists>msg. start cfg inp ctx = (Some (ApplicationError msg True), ctx))
         \<and> status (snd (start cfg inp init_context)) = PENDING
         \<and> current_step (snd (start cfg inp init_context)) = None)
   \<and> (WORKFLOW_SECRET_ENABLED cfg \<and>
      (\<not> truthy_str (WORKFLOW_SECRET_KEY cfg) \<or> secret_key rinp \<noteq> WORKFLOW_SECRET_KEY cfg)
     \<longrightarrow> (\<exists>msg. run_workflow cfg host rinp = (Inl (ApplicationError msg True), init_context, [])))
   \<and> (\<not> WORKFLOW_SECRET_ENABLED cfg
     \<longrightarrow> start cfg inp ctx = (None, ctx\<lparr>status := RUNNING\<rparr>))"
proof (intro conjI impI)
  assume "WORKFLOW_SECRET_ENABLED cfg \<and>
      (\<not> truthy_str (WORKFLOW_SECRET_KEY cfg) \<or> secret_key inp \<noteq> WORKFLOW_SECRET_KEY cfg)"
  then show "\<exists>msg. start cfg inp ctx = (Some (ApplicationError msg True), ctx)"
    and "status (snd (start cfg inp init_context)) = PENDING"
    and "current_step (snd (start cfg inp init_context)) = None"
    by (simp_all add: start_def init_context_def)
next
  assume "WORKFLOW_SECRET_ENABLED cfg \<and>
      (\<not> truthy_str (WORKFLOW_SECRET_KEY cfg) \<or> secret_key rinp \<noteq> WORKFLOW_SECRET_KEY cfg)"
  then show "\<exists>msg. run_workflow cfg host rinp = (Inl (ApplicationError msg True), init_context, [])"
    by (simp add: run_workflow_def run_def bind_def do_start_def start_def)
next
  assume "\<not> WORKFLOW_SECRET_ENABLED cfg"
  then show "start cfg inp ctx = (None, ctx\<lparr>status := RUNNING\<rparr>)"
    by (simp add: start_def)
qed

theorem start_authentication_witness:
  "(\<exists>msg. start \<lparr>WORKFLOW_SECRET_ENABLED = True, WORKFLOW_SECRET_KEY = Some ''s3cret''\<rparr>
       \<lparr>secret_key = Some ''guess'', rewrite_enabled = False, rewrite_device = None\<rparr> init_context
     = (Some (ApplicationError msg True), init_context))
   \<and> (\<exists>msg. start \<lparr>WORKFLOW_SECRET_ENABLED = True, WORKFLOW_SECRET_KEY = Some ''s3cret''\<rparr>
       \<lparr>secret_key = None, rewrite_enabled = False, rewrite_device = None\<rparr> init_context
     = (Some (ApplicationError msg True), init_context))
   \<and> (\<exists>msg. start \<lparr>WORKFLOW_SECRET_ENABLED = True, WORKFLOW_SECRET_KEY = None\<rparr>
       \<lparr>secret_key = Some ''guess'', rewrite_enabled = False, rewrite_device = None\<rparr> init_context
     = (Some (ApplicationError msg True), init_context))
   \<and> status (snd (start \<lparr>WORKFLOW_SECRET_ENABLED = True, WORKFLOW_SECRET_KEY = Some ''s3cret''\<rparr>
       \<lparr>secret_key = Some ''guess'', rewrite_enabled = False, rewrite_device = None\<rparr> init_context))
     = PENDING
   \<and> (\<exists>msg. run_workflow \<lparr>WORKFLOW_SECRET_ENABLED = True, WORKFLOW_SECRET_KEY = Some ''s3cret''\<rparr>
       demo_host demo_ruby_input = (Inl (ApplicationError msg True), init_context, []))
   \<and> start \<lparr>WORKFLOW_SECRET_ENABLED = False, WORKFLOW_SECRET_KEY = Some ''s3cret''\<rparr>
       \<lparr>secret_key = Some ''guess'', rewrite_enabled = False, rewrite_device = None\<rparr> init_context
     = (None, init_context\<lparr>status := RUNNING\<rparr>)"
proof -
  let ?on = "\<lparr>WORKFLOW_SECRET_ENABLED = True, WORKFLOW_SECRET_KEY = Some ''s3cret''\<rparr>"
  let ?unset = "\<lparr>WORKFLOW_SECRET_ENABLED = True, WORKFLOW_SECRET_KEY = None\<rparr>"
  let ?off = "\<lparr>WORKFLOW_SECRET_ENABLED = False, WORKFLOW_SECRET_KEY = Some ''s3cret''\<rparr>"
  let ?guess = "\<lparr>secret_key = Some ''guess'', rewrite_enabled = False, rewrite_device = None\<rparr>"
  let ?absent = "\<lparr>secret_key = None, rewrite_enabled = False, rewrite_device = None\<rparr>"
  have k: "secret_key demo_ruby_input = None"
    by (simp add: demo_ruby_input_def)
  note a = start_authentication [where cfg = ?on and inp = ?guess and ctx = init_context
      and rinp = demo_ruby_input and host = demo_host]
  note b = start_authentication [where cfg = ?on and inp = ?absent and ctx = init_context]
  note c = start_authentication [where cfg = ?unset and inp = ?guess and ctx = init_context]
  note d = start_authentication [where cfg = ?off and inp = ?guess and ctx = init_context]
  from a b c d k show ?thesis by simp
qed

text \<open>
  C2, as amended. Entering a step and leaving it normally never change the status of the
  context, so a terminal status survives every sequence of these two operations, and a
  \<open>start\<close> that fails authentication changes nothing either. The other operations
  write the status whatever it was: \<open>start\<close> that passes authentication sets
  \<open>RUNNING\<close>, \<open>complete\<close> sets \<open>COMPLETED\<close>, \<open>fail\<close> sets \<open>FAILED\<close>, and
  the exceptional exit of a step sets \<open>FAILED\<close> when an \<open>Exception\<close> reaches it inside a
  step.
\<close>

theorem status_after_operations:
  "(list_all tracks_step ops \<longrightarrow> status (run_ops cfg ops ctx) = status ctx)
   \<and> status (apply_op cfg (OpStart inp) ctx) = (if auth_passes cfg inp then RUNNING else status ctx)
   \<and> status (apply_op cfg OpComplete ctx) = COMPLETED
   \<and> status (apply_op cfg (OpFail error) ctx) = FAILED
   \<and> status (apply_op cfg (OpStepFailed e) ctx) =
         (if is_Exception e \<and> current_step ctx \<noteq> None then FAILED else status ctx)"
proof (intro conjI impI)
  show "status (run_ops cfg ops ctx) = status ctx" if "list_all tracks_step ops"
    using that by (induction ops arbitrary: ctx) (simp_all add: status_tracks_step)
  show "status (apply_op cfg (OpStart inp) ctx) = (if auth_passes cfg inp then RUNNING else status ctx)"
    by (simp add: start_def auth_passes_def)
  show "status (apply_op cfg OpComplete ctx) = COMPLETED"
    by (simp add: complete_def)
  show "status (apply_op cfg (OpFail error) ctx) = FAILED"
    by (simp add: fail_def split: option.split)
  show "status (apply_op cfg (OpStepFailed e) ctx) =
         (if is_Exception e \<and> current_step ctx \<noteq> None then FAILED else status ctx)"
    by (auto simp add: step_failed_def split: option.split)
qed

theorem status_after_operations_witness:
  "list_all tracks_step [OpStepEnter ''upload'' ''Upload'' 90 [], OpStepCompleted ''upload'']
   \<and> status (run_ops \<lparr>WORKFLOW_SECRET_ENABLED = False, WORKFLOW_SECRET_KEY = None\<rparr>
        [OpStepEnter ''upload'' ''Upload'' 90 [], OpStepCompleted ''upload''] (complete init_context))
     = COMPLETED"
proof -
  have t: "list_all tracks_step [OpStepEnter ''upload'' ''Upload'' 90 [], OpStepCompleted ''upload'']"
    by simp
  have c: "status (complete init_context) = COMPLETED"
    by (simp add: complete_def)
  from t c status_after_operations
    [of "[OpStepEnter ''upload'' ''Upload'' 90 [], OpStepCompleted ''upload'']"
        "\<lparr>WORKFLOW_SECRET_ENABLED = False, WORKFLOW_SECRET_KEY = None\<rparr>" "complete init_context"]
  show ?thesis by simp
qed

text \<open>
  The claim as first stated fails: a context that is \<open>COMPLETED\<close> becomes \<open>FAILED\<close> on
  \<open>fail\<close>, and \<open>RUNNING\<close> again on a \<open>start\<close> with authentication off.
\<close>

theorem terminal_not_absorbing_counterexample:
  "terminal (status (complete init_context))
   \<and> status (run_ops \<lparr>WORKFLOW_SECRET_ENABLED = False, WORKFLOW_SECRET_KEY = None\<rparr>
        [OpFail ''late''] (complete init_context)) = FAILED
   \<and> status (run_ops \<lparr>WORKFLOW_SECRET_ENABLED = False, WORKFLOW_SECRET_KEY = None\<rparr>
        [OpStart \<lparr>secret_key = None, rewrite_enabled = False, rewrite_device = None\<rparr>]
        (complete init_context)) = RUNNING"
  by (simp add: complete_def fail_def start_def init_context_def)

section \<open>Properties of the completion client\<close>

lemma contains_sublist: "contains needle hay \<longleftrightarrow> sublist needle hay"
  by (induction hay) (simp_all add: sublist_Cons_right)

lemma contains_middle: "contains n (a @ n @ b)"
  by (simp add: contains_sublist)

lemma contains_end: "contains n (a @ n)"
  using contains_middle [of n a "[]"] by simp

lemma calls_complete_with_model:
  "snd (complete_with_model env client request m fb calls) = calls @ [build_kwargs client request m]"
  by (simp add: complete_with_model_def Let_def split: sum.split list.split option.split jv.split)

lemma both_failed_message_contains:
  "contains (py_str pe) (both_failed_message m fm pe fe) \<and> contains (py_str fe) (both_failed_message m fm pe fe)"
proof
  have "both_failed_message m fm pe fe =
      (''Both primary ('' @ m @ '') and fallback ('' @ fm @ '') models failed. '' @ ''Primary error: '')
       @ py_str pe @ (''. Fallback error: '' @ py_str fe)"
    by (simp add: both_failed_message_def)
  then show "contains (py_str pe) (both_failed_message m fm pe fe)"
    by (simp only: contains_middle)
  have "both_failed_message m fm pe fe =
      (''Both primary ('' @ m @ '') and fallback ('' @ fm @ '') models failed. '' @ ''Primary error: ''
       @ py_str pe @ ''. Fallback error: '') @ py_str fe"
    by (simp add: both_failed_message_def)
  then show "contains (py_str fe) (both_failed_message m fm pe fe)"
    by (simp only: contains_end)
qed

text \<open>
  C3. The primary attempt is one call of the library. When it succeeds its response is
  returned and no other call is made. When it fails with an \<open>Exception\<close> that
  \<open>_should_fallback\<close> classifies as transient and fallback is enabled, exactly one more call
  is made, with the fallback model: its response is returned, or, when it fails too, a
  \<open>RuntimeError\<close> from the fallback error whose message contains the texts of both
  errors. When fallback is disabled or the error is not classified transient, no other call
  is made and the primary error is raised as it is.
\<close>

theorem fallback_completion:
  fixes env client request calls
  defines "m \<equiv> model_or_primary client request"
    and "fm \<equiv> fallback_model (fallback_config client)"
  defines "k1 \<equiv> build_kwargs client request m"
    and "k2 \<equiv> build_kwargs client request fm"
  defines "primary \<equiv> fst (complete_with_model env client request m False calls)"
    and "fallback \<equiv> fst (complete_with_model env client request fm True (calls @ [k1]))"
  shows
  "(primary = Inr r \<longrightarrow> complete_request env client request calls = (Inr r, calls @ [k1]))
   \<and> (primary = Inl pe \<and> is_Exception pe \<and> enabled (fallback_config client) \<and> should_fallback client pe
        \<longrightarrow> complete_request env client request calls
             = (case fallback of
                  Inr r' \<Rightarrow> Inr r'
                | Inl fe \<Rightarrow> if is_Exception fe
                    then Inl (RuntimeError (both_failed_message m fm pe fe) fe) else Inl fe,
                calls @ [k1, k2]))
   \<and> (primary = Inl pe \<and> (\<not> enabled (fallback_config client) \<or> \<not> should_fallback client pe)
        \<longrightarrow> complete_request env client request calls = (Inl pe, calls @ [k1]))
   \<and> contains (py_str pe) (both_failed_message m fm pe fe)
   \<and> contains (py_str fe) (both_failed_message m fm pe fe)"
proof -
  obtain r1 c1 where p: "complete_with_model env client request m False calls = (r1, c1)"
    by (cases "complete_with_model env client request m False calls")
  have c1: "c1 = calls @ [k1]"
    using calls_complete_with_model [of env client request m False calls] p by (simp add: k1_def)
  obtain r2 c2 where f: "complete_with_model env client request fm True (calls @ [k1]) = (r2, c2)"
    by (cases "complete_with_model env client request fm True (calls @ [k1])")
  have c2: "c2 = calls @ [k1, k2]"
    using calls_complete_with_model [of env client request fm True "calls @ [k1]"] f by (simp add: k2_def)
  have pr: "primary = r1" by (simp add: primary_def p)
  have fb: "fallback = r2" by (simp add: fallback_def f)
  show ?thesis
    unfolding pr fb
    using both_failed_message_contains [of pe m fm fe]
    by (auto simp add: complete_request_def Let_def m_def [symmetric] fm_def [symmetric] p c1 f c2
        split: sum.split)
qed

lemma demo_model: "model_or_primary demo_client demo_request = ''gemini-flash''"
  by (simp add: model_or_primary_def demo_client_def demo_request_def)

lemma demo_fallback_model: "fallback_model (fallback_config demo_client) = ''gpt-mini''"
  by (simp add: demo_client_def)

lemma demo_enabled: "enabled (fallback_config demo_client)"
  by (simp add: demo_client_def)

lemma demo_transient: "should_fallback demo_client (Exception ''RateLimitError'' ''quota exceeded'')"
  by code_simp

lemma demo_fatal: "\<not> should_fallback demo_client (Exception ''AuthenticationError'' ''invalid api key'')"
  by code_simp

lemma demo_ok_attempt:
  "fst (complete_with_model (demo_env demo_ok) demo_client demo_request ''gemini-flash'' False [])
     = Inr \<lparr>content = ''Hi'', response_model = ''gemini-flash'',
            usage = \<lparr>prompt_tokens = 0, completion_tokens = 0, total_tokens = 0\<rparr>,
            fallback_used = False, parsed = None\<rparr>"
  by (simp add: complete_with_model_def demo_env_def demo_ok_def demo_request_def usage_of_def Let_def)

lemma demo_rate_limited_attempts:
  "fst (complete_with_model (demo_env demo_rate_limited) demo_client demo_request ''gemini-flash'' False calls)
     = Inl (Exception ''RateLimitError'' ''quota exceeded'')"
  "fst (complete_with_model (demo_env demo_rate_limited) demo_client demo_request ''gpt-mini'' True calls)
     = Inl (Exception ''APIError'' ''bad gateway'')"
  by (simp_all add: complete_with_model_def demo_env_def demo_rate_limited_def build_kwargs_def Let_def)

lemma demo_rejected_attempt:
  "fst (complete_with_model (demo_env demo_rejected) demo_client demo_request ''gemini-flash'' False [])
     = Inl (Exception ''AuthenticationError'' ''invalid api key'')"
  by (simp add: complete_with_model_def demo_env_def demo_rejected_def Let_def)

theorem fallback_completion_witness:
  "complete_request (demo_env demo_ok) demo_client demo_request []
     = (Inr \<lparr>content = ''Hi'', response_model = ''gemini-flash'',
              usage = \<lparr>prompt_tokens = 0, completion_tokens = 0, total_tokens = 0\<rparr>,
              fallback_used = False, parsed = None\<rparr>,
        [build_kwargs demo_client demo_request ''gemini-flash''])
   \<and> complete_request (demo_env demo_rate_limited) demo_client demo_request []
     = (Inl (RuntimeError
          (both_failed_message ''gemini-flash'' ''gpt-mini''
             (Exception ''RateLimitError'' ''quota exceeded'') (Exception ''APIError'' ''bad gateway''))
          (Exception ''APIError'' ''bad gateway'')),
        [build_kwargs demo_client demo_request ''gemini-flash'',
         build_kwargs demo_client demo_request ''gpt-mini''])
   \<and> complete_request (demo_env demo_rejected) demo_client demo_request []
     = (Inl (Exception ''AuthenticationError'' ''invalid api key''),
        [build_kwargs demo_client demo_request ''gemini-flash''])"
proof -
  note a = fallback_completion [where env = "demo_env demo_ok" and client = demo_client
      and request = demo_request and calls = "[]"
      and r = "\<lparr>content = ''Hi'', response_model = ''gemini-flash'',
            usage = \<lparr>prompt_tokens = 0, completion_tokens = 0, total_tokens = 0\<rparr>,
            fallback_used = False, parsed = None\<rparr>"]
  note b = fallback_completion [where env = "demo_env demo_rate_limited" and client = demo_client
      and request = demo_request and calls = "[]"
      and pe = "Exception ''RateLimitError'' ''quota exceeded''"]
  note c = fallback_completion [where env = "demo_env demo_rejected" and client = demo_client
      and request = demo_request and calls = "[]"
      and pe = "Exception ''AuthenticationError'' ''invalid api key''"]
  have 1: "complete_request (demo_env demo_ok) demo_client demo_request []
     = (Inr \<lparr>content = ''Hi'', response_model = ''gemini-flash'',
              usage = \<lparr>prompt_tokens = 0, completion_tokens = 0, total_tokens = 0\<rparr>,
              fallback_used = False, parsed = None\<rparr>,
        [build_kwargs demo_client demo_request ''gemini-flash''])"
    using a by (simp add: demo_model demo_ok_attempt)
  have 2: "complete_request (demo_env demo_rate_limited) demo_client demo_request []
     = (Inl (RuntimeError
          (both_failed_message ''gemini-flash'' ''gpt-mini''
             (Exception ''RateLimitError'' ''quota exceeded'') (Exception ''APIError'' ''bad gateway''))
          (Exception ''APIError'' ''bad gateway'')),
        [build_kwargs demo_client demo_request ''gemini-flash'',
         build_kwargs demo_client demo_request ''gpt-mini''])"
    using b demo_enabled demo_transient
    by (simp add: demo_model demo_fallback_model demo_rate_limited_attempts)
  have 3: "complete_request (demo_env demo_rejected) demo_client demo_request []
     = (Inl (Exception ''AuthenticationError'' ''invalid api key''),
        [build_kwargs demo_client demo_request ''gemini-flash''])"
    using c demo_fatal by (simp add: demo_model demo_rejected_attempt)
  from 1 2 3 show ?thesis by blast
qed

section \<open>Properties of the scraping fan-out and of the query generation\<close>

lemma collect_results_eq:
  "length qs = length rs \<Longrightarrow>
   collect_results qs rs (ps, es) =
     (ps @ concat (map branch_pins rs),
      es @ map (\<lambda>(q, r). branch_error q r) (filter (\<lambda>(q, r). branch_failed r) (zip qs rs)))"
proof (induction qs rs arbitrary: ps es rule: list_induct2)
  case Nil
  then show ?case by simp
next
  case (Cons q qs r rs)
  show ?case
    by (cases r)
       (auto simp add: Cons.IH branch_pins_def branch_error_def branch_failed_def
          split: tool_output.split)
qed

lemma scrape_pinterest_eq:
  "scrape_pinterest execute_tool queries =
     (let results = map (\<lambda>q. execute_tool (scraper_input q)) queries;
          all_pins = concat (map branch_pins results);
          errors = map (\<lambda>(q, r). branch_error q r) (filter (\<lambda>(q, r). branch_failed r) (zip queries results))
      in if all_pins = [] \<and> errors \<noteq> []
         then Inl (ApplicationError (''All Pinterest queries failed: '' @ join ''; '' errors) True)
         else Inr all_pins)"
  unfolding scrape_pinterest_def Let_def
  by (subst collect_results_eq) simp_all











lemma parse_queries_fallback:
  "parsed response = None \<or> parsed response = Some []
     \<or> (\<exists>kvs. parsed response = Some kvs \<and> \<not> truthy (dict_get kvs ''queries'' (JList [])))
   \<Longrightarrow> parse_queries response prompt = Inr (JList [JStr prompt])"
  by (auto simp add: parse_queries_def Let_def)

lemma parse_queries_list:
  "parsed response = Some kvs \<Longrightarrow> dict_get kvs ''queries'' (JList []) = JList (x # xs)
   \<Longrightarrow> parse_queries response prompt = Inr (JList (take NUM_QUERIES (x # xs)))"
  by (auto simp add: parse_queries_def Let_def slice_queries_def dict_get_def)

text \<open>
  C10. When the response has no parsed dictionary, or no \<open>queries\<close> in it, or an empty
  value there, the prompt alone is returned; a non-empty list gives its first
  \<open>NUM_QUERIES\<close> elements. A non-empty value that is not a list is sliced all the same:
  a number raises \<open>TypeError\<close>, inside the step, and the workflow fails.
\<close>

theorem queries_not_a_list_fail:
  "generate_queries (\<lambda>prompt. Inr (demo_response (JInt 7))) ''cozy cabin''
     = Inl (Exception ''TypeError'' ''int object is not subscriptable'')
   \<and> status (fst (snd (step ''generate_queries'' ''Generate Search Queries'' 10 []
        (\<lambda>ctx st. (generate_queries (\<lambda>prompt. Inr (demo_response (JInt 7))) ''cozy cabin'', ctx, st))
        (init_context\<lparr>status := RUNNING\<rparr>) ()))) = FAILED
   \<and> generate_queries (\<lambda>prompt. Inr (demo_response (JStr ''cabin''))) ''cozy cabin''
     = Inr (JStr ''cabin'')"
  by (simp add: generate_queries_def parse_queries_def demo_response_def dict_get_def
      slice_queries_def NUM_QUERIES_def step_def step_enter_def step_failed_def init_context_def)

section \<open>Properties of the selection\<close>

subsection \<open>The text penalty and the score\<close>




lemma or_zero_known: "or_zero d \<noteq> 0 \<longleftrightarrow> known d"
  by (cases d) (simp_all add: or_zero_def known_def)

lemma or_zero_the: "known d \<Longrightarrow> or_zero d = the d"
  by (cases d) (simp_all add: or_zero_def known_def)









subsection \<open>Deduplication, ranking and the greedy walk\<close>



lemma set_sort_scored: "set (sort_scored xs) = set xs"
  by (simp add: sort_scored_def)



lemma dedup_score_urls:
  "distinct (map (\<lambda>x. get_str (image_url (snd x)) []) (dedup_score pins seen))
   \<and> set (map (\<lambda>x. get_str (image_url (snd x)) []) (dedup_score pins seen))
       = {u \<in> (\<lambda>p. get_str (image_url p) []) ` set pins. u \<noteq> [] \<and> u \<notin> set seen}"
  by (induction pins arbitrary: seen) (auto simp add: Let_def)



lemma hash_model_dump: "compute_image_hash md5 (model_dump (to_image p)) = compute_image_hash md5 p"
  by (simp add: compute_image_hash_def hash_input_def model_dump_def to_image_def get_str_def)

lemma is_too_similar_iff: "is_too_similar h hs \<longleftrightarrow> take 4 h \<in> set (map (take 4) hs)"
  by (auto simp add: is_too_similar_def list_ex_iff)

lemma select_loop_invariant:
  assumes "hs = map (fingerprint md5) sel" "distinct (map (take 4) hs)" "length sel \<le> k"
  shows "snd (select_loop md5 k rest (sel, hs)) = map (fingerprint md5) (fst (select_loop md5 k rest (sel, hs)))
       \<and> distinct (map (take 4) (snd (select_loop md5 k rest (sel, hs))))
       \<and> length (fst (select_loop md5 k rest (sel, hs))) \<le> k
       \<and> length (fst (select_loop md5 k rest (sel, hs)))
           = min k (card (set (map (take 4) hs) \<union> (\<lambda>x. take 4 (compute_image_hash md5 (snd x))) ` set rest))"
  using assms
proof (induction rest arbitrary: sel hs)
  case Nil
  have "card (set (map (take 4) hs)) = length sel"
    using Nil by (metis distinct_card length_map)
  with Nil show ?case by simp
next
  case (Cons x rest)
  obtain s p where x: "x = (s, p)" by (cases x)
  let ?P = "\<lambda>x. take 4 (compute_image_hash md5 (snd x))"
  have len: "card (set (map (take 4) hs)) = length sel"
    using Cons.prems by (metis distinct_card length_map)
  show ?case
  proof (cases "k \<le> length sel")
    case True
    then have eq: "select_loop md5 k (x # rest) (sel, hs) = (sel, hs)" by (simp add: x)
    have "card (set (map (take 4) hs)) \<le> card (set (map (take 4) hs) \<union> ?P ` set (x # rest))"
      by (rule card_mono) auto
    with True len Cons.prems(3)
    have m: "min k (card (set (map (take 4) hs) \<union> ?P ` set (x # rest))) = length sel"
      by simp
    show ?thesis
      unfolding eq fst_conv snd_conv m using Cons.prems by simp
  next
    case False
    show ?thesis
    proof (cases "is_too_similar (compute_image_hash md5 p) hs")
      case True
      then have eq: "select_loop md5 k (x # rest) (sel, hs) = select_loop md5 k rest (sel, hs)"
        using False by (simp add: x)
      from True have S: "set (map (take 4) hs) \<union> ?P ` set (x # rest) = set (map (take 4) hs) \<union> ?P ` set rest"
        by (auto simp add: is_too_similar_iff x)
      show ?thesis unfolding eq S by (rule Cons.IH [OF Cons.prems])
    next
      case sim: False
      let ?h = "compute_image_hash md5 p"
      have eq: "select_loop md5 k (x # rest) (sel, hs) = select_loop md5 k rest (sel @ [to_image p], hs @ [?h])"
        using False sim by (simp add: x Let_def)
      have 1: "hs @ [?h] = map (fingerprint md5) (sel @ [to_image p])"
        using Cons.prems(1) by (simp add: fingerprint_def hash_model_dump)
      have 2: "distinct (map (take 4) (hs @ [?h]))"
        using Cons.prems(2) sim by (simp add: is_too_similar_iff)
      have 3: "length (sel @ [to_image p]) \<le> k"
        using False by simp
      have S: "set (map (take 4) hs) \<union> ?P ` set (x # rest) = set (map (take 4) (hs @ [?h])) \<union> ?P ` set rest"
        by (auto simp add: x)
      show ?thesis unfolding eq S by (rule Cons.IH [OF 1 2 3])
    qed
  qed
qed







text \<open>
  C7. The fingerprint of a pin is the first eight characters of the digest of the last
  three segments of its URL, its width and its height. No two selected images have
  fingerprints with the same first four characters; at
  most \<open>NUM_IMAGES_TO_RETURN\<close> images are selected, and exactly as many as there are
  distinct fingerprint prefixes among the deduplicated candidates when these are fewer:
  the walk stops at the limit or at the end of the ranking, and returns the shorter list
  (the function is total: nothing is raised). No pins give no images.
\<close>

theorem selection_diverse_and_bounded:
  "distinct (map (\<lambda>i. take 4 (fingerprint md5 i)) (select_best_images md5 pins))
   \<and> length (select_best_images md5 pins) \<le> NUM_IMAGES_TO_RETURN
   \<and> length (select_best_images md5 pins)
       = min NUM_IMAGES_TO_RETURN
           (card ((\<lambda>x. take 4 (compute_image_hash md5 (snd x))) ` set (dedup_score pins [])))
   \<and> select_best_images md5 [] = []
   \<and> compute_image_hash md5 p
       = take 8 (md5 (join ''-'' (last_n 3 (split (CHR ''/'') (get_str (image_url p) [])))
           @ '':'' @ str_int (or_zero (image_width p)) @ '':'' @ str_int (or_zero (image_height p))))"
proof -
  let ?r = "select_loop md5 NUM_IMAGES_TO_RETURN (sort_scored (dedup_score pins [])) ([], [])"
  have inv:
    "snd ?r = map (fingerprint md5) (fst ?r)
     \<and> distinct (map (take 4) (snd ?r))
     \<and> length (fst ?r) \<le> NUM_IMAGES_TO_RETURN
     \<and> length (fst ?r)
         = min NUM_IMAGES_TO_RETURN
             (card (set (map (take 4) [])
                \<union> (\<lambda>x. take 4 (compute_image_hash md5 (snd x))) ` set (sort_scored (dedup_score pins []))))"
    by (rule select_loop_invariant) simp_all
  from inv have a: "snd ?r = map (fingerprint md5) (fst ?r)"
    and b: "distinct (map (take 4) (snd ?r))"
    by blast+
  from b have "distinct (map (take 4) (map (fingerprint md5) (fst ?r)))"
    by (simp only: a [symmetric])
  then have 1: "distinct (map (\<lambda>i. take 4 (fingerprint md5 i)) (select_best_images md5 pins))"
    by (simp add: select_best_images_def comp_def)
  from inv have 2: "length (select_best_images md5 pins) \<le> NUM_IMAGES_TO_RETURN"
    by (simp add: select_best_images_def)
  from inv have 3: "length (select_best_images md5 pins)
       = min NUM_IMAGES_TO_RETURN
           (card ((\<lambda>x. take 4 (compute_image_hash md5 (snd x))) ` set (dedup_score pins [])))"
    by (simp add: select_best_images_def set_sort_scored)
  have 4: "select_best_images md5 [] = []"
    by (simp add: select_best_images_def sort_scored_def)
  have 5: "compute_image_hash md5 p
       = take 8 (md5 (join ''-'' (last_n 3 (split (CHR ''/'') (get_str (image_url p) [])))
           @ '':'' @ str_int (or_zero (image_width p)) @ '':'' @ str_int (or_zero (image_height p))))"
    by (simp add: compute_image_hash_def hash_input_def)
  from 1 2 3 4 5 show ?thesis by blast
qed

section \<open>Properties of the sequential pipeline\<close>

lemma skips_ret: "skips_rewrite (ret v)"
  by (simp add: skips_rewrite_def ret_def)

lemma skips_raise: "skips_rewrite (raise e)"
  by (simp add: skips_rewrite_def raise_def)

lemma skips_run_activity: "\<not> is_rewrite a \<Longrightarrow> skips_rewrite (run_activity a t r outcome)"
  by (simp add: skips_rewrite_def run_activity_def)

lemma skips_bind:
  assumes "skips_rewrite m" "\<And>v. skips_rewrite (f v)"
  shows "skips_rewrite (bind m f)"
  unfolding skips_rewrite_def
proof (intro allI)
  fix ctx calls
  obtain r c1 t1 where m: "m ctx calls = (r, c1, t1)" by (cases "m ctx calls")
  from assms(1) m obtain more1 where 1: "t1 = calls @ more1" "list_all (\<lambda>c. \<not> is_rewrite (called c)) more1"
    and 2: "''rewrite'' \<in> set (completed_steps c1) \<longrightarrow> ''rewrite'' \<in> set (completed_steps ctx)"
    unfolding skips_rewrite_def by (metis fst_conv snd_conv)
  show "(\<exists>more. snd (snd (bind m f ctx calls)) = calls @ more \<and> list_all (\<lambda>c. \<not> is_rewrite (called c)) more)
        \<and> (''rewrite'' \<in> set (completed_steps (fst (snd (bind m f ctx calls))))
             \<longrightarrow> ''rewrite'' \<in> set (completed_steps ctx))"
  proof (cases r)
    case (Inl e)
    then show ?thesis using 1 2 by (simp add: bind_def m)
  next
    case (Inr v)
    from assms(2) [of v] obtain more2 where
      3: "snd (snd (f v c1 t1)) = t1 @ more2" "list_all (\<lambda>c. \<not> is_rewrite (called c)) more2"
      and 4: "''rewrite'' \<in> set (completed_steps (fst (snd (f v c1 t1)))) \<longrightarrow> ''rewrite'' \<in> set (completed_steps c1)"
      unfolding skips_rewrite_def by blast
    have "snd (snd (f v c1 t1)) = calls @ (more1 @ more2)" using 1 3 by simp
    moreover have "list_all (\<lambda>c. \<not> is_rewrite (called c)) (more1 @ more2)" using 1 3 by simp
    ultimately show ?thesis using 2 4 Inr by (auto simp add: bind_def m)
  qed
qed

lemma step_calls: "snd (snd (step sid sname pct msg body ctx st)) = snd (snd (body (step_enter sid sname pct msg ctx) st))"
  by (simp add: step_def split: prod.split sum.split option.split)

lemma step_completed_steps:
  "set (completed_steps (fst (snd (step sid sname pct msg body ctx st))))
     \<subseteq> insert sid (set (completed_steps (fst (snd (body (step_enter sid sname pct msg ctx) st)))))"
  by (auto simp add: step_def step_completed_def step_failed_def split: prod.split sum.split option.split)

lemma skips_in_step:
  assumes "skips_rewrite body" "sid \<noteq> ''rewrite''"
  shows "skips_rewrite (in_step sid sname pct body)"
  unfolding skips_rewrite_def
proof (intro allI conjI impI)
  fix ctx calls
  let ?c = "step_enter sid sname pct [] ctx"
  from assms(1) obtain more where
    1: "snd (snd (body ?c calls)) = calls @ more" "list_all (\<lambda>c. \<not> is_rewrite (called c)) more"
    and 2: "''rewrite'' \<in> set (completed_steps (fst (snd (body ?c calls)))) \<longrightarrow> ''rewrite'' \<in> set (completed_steps ?c)"
    unfolding skips_rewrite_def by blast
  show "\<exists>more. snd (snd (in_step sid sname pct body ctx calls)) = calls @ more
          \<and> list_all (\<lambda>c. \<not> is_rewrite (called c)) more"
    using 1 by (simp add: in_step_def step_calls)
  assume "''rewrite'' \<in> set (completed_steps (fst (snd (in_step sid sname pct body ctx calls))))"
  with step_completed_steps [of sid sname pct "[]" body ctx calls] assms(2)
  have "''rewrite'' \<in> set (completed_steps (fst (snd (body ?c calls))))"
    by (auto simp add: in_step_def)
  with 2 show "''rewrite'' \<in> set (completed_steps ctx)"
    by (simp add: step_enter_def)
qed

lemma skips_do_start: "skips_rewrite (do_start cfg inp)"
  by (simp add: skips_rewrite_def do_start_def start_def)

lemma skips_do_complete: "skips_rewrite do_complete"
  by (simp add: skips_rewrite_def do_complete_def complete_def)

lemma skips_run: "\<not> rewrite_enabled inp \<Longrightarrow> skips_rewrite (run cfg host inp)"
  unfolding run_def prompts_step_def face_step_def video_step_def slowmo_step_def text_step_def
    rewrite_step_def upload_step_def upload_output_def Let_def
  by (auto intro!: skips_bind skips_in_step skips_run_activity skips_ret skips_raise skips_do_start
        skips_do_complete split: option.split prod.split)


lemma bind_Inr:
  assumes "bind m f ctx calls = (Inr v, c', t')"
  obtains u c1 t1 where "m ctx calls = (Inr u, c1, t1)" "f u c1 t1 = (Inr v, c', t')"
  using assms by (auto simp add: bind_def split: prod.splits sum.splits)

lemma in_step_Inr:
  assumes "in_step sid sname pct body ctx calls = (Inr v, c', t')"
  obtains c1 where "body (step_enter sid sname pct [] ctx) calls = (Inr v, c1, t')"
  using assms by (auto simp add: in_step_def step_def split: prod.splits sum.splits option.splits)

lemma run_activity_Inr:
  "run_activity a t r outcome ctx calls = (Inr v, c', t') \<Longrightarrow> outcome = Inr v"
  by (simp add: run_activity_def)

lemma ret_Inr: "ret u ctx calls = (Inr v, c', t') \<Longrightarrow> u = v"
  by (simp add: ret_def)

lemma face_step_Inr:
  "face_step host inp ratio image_prompt ctx calls = (Inr g, c', t')
   \<Longrightarrow> generate_image_with_model host (image_model inp) (image_params_of inp ratio image_prompt) = Inr g"
  unfolding face_step_def by (erule in_step_Inr) (rule run_activity_Inr)

lemma video_step_Inr:
  "video_step host inp ratio video_prompt face_url ctx calls = (Inr v, c', t')
   \<Longrightarrow> generate_video_with_model host (video_model inp) (video_params_of inp ratio video_prompt face_url) = Inr v"
  unfolding video_step_def by (erule in_step_Inr) (rule run_activity_Inr)

lemma slowmo_step_Inr:
  "slowmo_step host inp raw_url ctx calls = (Inr v, c', t')
   \<Longrightarrow> (if slowed_video inp then slow_down_video host (slowmo_input inp raw_url) = Inr v else v = raw_url)"
  unfolding slowmo_step_def
  by (auto elim!: in_step_Inr dest: run_activity_Inr ret_Inr split: if_splits)

lemma text_step_Inr:
  "text_step host inp final_url ctx calls = (Inr v, c', t')
   \<Longrightarrow> (if truthy_str (text_overlay inp)
        then add_text_overlay host (text_input final_url (the (text_overlay inp))) = Inr v
        else v = final_url)"
  unfolding text_step_def
  by (auto elim!: in_step_Inr dest: run_activity_Inr ret_Inr split: if_splits option.splits)

lemma rewrite_step_disabled:
  "\<not> rewrite_enabled inp \<Longrightarrow> rewrite_step host inp face_url final_url = ret (face_url, final_url)"
  by (simp add: rewrite_step_def)

lemma upload_step_Inr:
  "upload_step host face_url ctx calls = (Inr v, c', t')
   \<Longrightarrow> upload_to_storage host \<lparr>upload_url = face_url, upload_folder = ''ruby/faces''\<rparr> = Inr v"
  unfolding upload_step_def upload_output_def by (erule in_step_Inr) (rule run_activity_Inr)

lemma aspect_of_value_Some: "aspect_of_value v = Some ratio \<Longrightarrow> aspect_value ratio = v"
  by (auto simp add: aspect_of_value_def split: if_splits)

lemma run_output:
  assumes off: "\<not> rewrite_enabled inp"
    and ok: "run cfg host inp ctx calls = (Inr out, c', t')"
  shows "\<exists>ratio generated_face slowed.
      aspect_of_value (input_aspect_ratio inp) = Some ratio
    \<and> generate_image_with_model host (image_model inp)
         (image_params_of inp ratio (enhanced_image_prompt out)) = Inr generated_face
    \<and> upload_to_storage host \<lparr>upload_url = generated_face, upload_folder = ''ruby/faces''\<rparr>
         = Inr (face_image_url out)
    \<and> generate_video_with_model host (video_model inp)
         (video_params_of inp ratio (enhanced_video_prompt out) generated_face) = Inr (raw_video_url out)
    \<and> (if slowed_video inp
        then slow_down_video host (slowmo_input inp (raw_video_url out)) = Inr slowed
        else slowed = raw_video_url out)
    \<and> (if truthy_str (text_overlay inp)
        then add_text_overlay host (text_input slowed (the (text_overlay inp))) = Inr (final_video_url out)
        else final_video_url out = slowed)"
  using ok unfolding run_def
  apply (auto elim!: bind_Inr
        dest!: face_step_Inr video_step_Inr slowmo_step_Inr text_step_Inr upload_step_Inr
        simp add: raise_def ret_def do_complete_def rewrite_step_disabled [OF off]
        split: option.splits prod.splits)
  subgoal for ratio c1 t1 ip vp c2 t2 raw slowed
    by (rule exI [of _ slowed]) auto
  done


lemma maybe_rewrite_disabled:
  assumes "\<not> rewrite_enabled inp"
  shows "maybe_rewrite_video host u inp speed ctx calls = (Inr u, ctx, calls)"
    and "maybe_rewrite_image host u inp ctx calls = (Inr u, ctx, calls)"
    and "maybe_rewrite_images host us inp ctx calls = (Inr us, ctx, calls)"
  using assms
  by (simp_all add: maybe_rewrite_video_def maybe_rewrite_image_def maybe_rewrite_images_def ret_def)

lemma run_workflow_skips:
  assumes "\<not> rewrite_enabled inp"
  shows "list_all (\<lambda>c. \<not> is_rewrite (called c)) (snd (snd (run_workflow cfg host inp)))"
    and "''rewrite'' \<notin> set (completed_steps (fst (snd (run_workflow cfg host inp))))"
proof -
  from skips_run [OF assms, of cfg host]
  have s: "(\<exists>more. snd (snd (run cfg host inp init_context [])) = [] @ more
              \<and> list_all (\<lambda>c. \<not> is_rewrite (called c)) more)
        \<and> (''rewrite'' \<in> set (completed_steps (fst (snd (run cfg host inp init_context []))))
             \<longrightarrow> ''rewrite'' \<in> set (completed_steps init_context))"
    unfolding skips_rewrite_def by blast
  from s show "list_all (\<lambda>c. \<not> is_rewrite (called c)) (snd (snd (run_workflow cfg host inp)))"
    by (auto simp add: run_workflow_def)
  from s show "''rewrite'' \<notin> set (completed_steps (fst (snd (run_workflow cfg host inp))))"
    by (auto simp add: run_workflow_def init_context_def)
qed

text \<open>
  C8, as amended. With \<open>rewrite_enabled\<close> false the three rewriting helpers return
  their argument and call nothing; a run of the Ruby workflow calls no rewrite activity
  and does not go through the rewrite step; and when the run succeeds its URLs are those of
  the stages that ran: \<open>raw_video_url\<close> is the URL returned by the video generation,
  \<open>final_video_url\<close> is the URL returned by the last post-processing stage that ran
  (slow motion, text overlay), or the raw video URL when none ran, and
  \<open>face_image_url\<close> is the URL returned by the upload of the generated face URL.
\<close>

theorem rewrite_disabled_skips_rewriting:
  "\<not> rewrite_enabled inp \<longrightarrow>
     maybe_rewrite_video host u inp speed ctx calls = (Inr u, ctx, calls)
   \<and> maybe_rewrite_image host u inp ctx calls = (Inr u, ctx, calls)
   \<and> maybe_rewrite_images host us inp ctx calls = (Inr us, ctx, calls)
   \<and> list_all (\<lambda>c. \<not> is_rewrite (called c)) (snd (snd (run_workflow cfg host inp)))
   \<and> ''rewrite'' \<notin> set (completed_steps (fst (snd (run_workflow cfg host inp))))
   \<and> (fst (run_workflow cfg host inp) = Inr out \<longrightarrow>
        (\<exists>ratio generated_face slowed.
            aspect_of_value (input_aspect_ratio inp) = Some ratio
          \<and> generate_image_with_model host (image_model inp)
               (image_params_of inp ratio (enhanced_image_prompt out)) = Inr generated_face
          \<and> upload_to_storage host \<lparr>upload_url = generated_face, upload_folder = ''ruby/faces''\<rparr>
               = Inr (face_image_url out)
          \<and> generate_video_with_model host (video_model inp)
               (video_params_of inp ratio (enhanced_video_prompt out) generated_face)
               = Inr (raw_video_url out)
          \<and> (if slowed_video inp
              then slow_down_video host (slowmo_input inp (raw_video_url out)) = Inr slowed
              else slowed = raw_video_url out)
          \<and> (if truthy_str (text_overlay inp)
              then add_text_overlay host (text_input slowed (the (text_overlay inp)))
                     = Inr (final_video_url out)
              else final_video_url out = slowed)))"
proof (intro impI conjI)
  assume off: "\<not> rewrite_enabled inp"
  show "maybe_rewrite_video host u inp speed ctx calls = (Inr u, ctx, calls)"
    using off by (rule maybe_rewrite_disabled)
  show "maybe_rewrite_image host u inp ctx calls = (Inr u, ctx, calls)"
    using off by (rule maybe_rewrite_disabled)
  show "maybe_rewrite_images host us inp ctx calls = (Inr us, ctx, calls)"
    using off by (rule maybe_rewrite_disabled)
  show "list_all (\<lambda>c. \<not> is_rewrite (called c)) (snd (snd (run_workflow cfg host inp)))"
    using off by (rule run_workflow_skips)
  show "''rewrite'' \<notin> set (completed_steps (fst (snd (run_workflow cfg host inp))))"
    using off by (rule run_workflow_skips)
  assume ok: "fst (run_workflow cfg host inp) = Inr out"
  obtain c' t' where "run cfg host inp init_context [] = (Inr out, c', t')"
    using ok by (cases "run cfg host inp init_context []") (simp add: run_workflow_def)
  from run_output [OF off this]
  show "\<exists>ratio generated_face slowed.
            aspect_of_value (input_aspect_ratio inp) = Some ratio
          \<and> generate_image_with_model host (image_model inp)
               (image_params_of inp ratio (enhanced_image_prompt out)) = Inr generated_face
          \<and> upload_to_storage host \<lparr>upload_url = generated_face, upload_folder = ''ruby/faces''\<rparr>
               = Inr (face_image_url out)
          \<and> generate_video_with_model host (video_model inp)
               (video_params_of inp ratio (enhanced_video_prompt out) generated_face)
               = Inr (raw_video_url out)
          \<and> (if slowed_video inp
              then slow_down_video host (slowmo_input inp (raw_video_url out)) = Inr slowed
              else slowed = raw_video_url out)
          \<and> (if truthy_str (text_overlay inp)
              then add_text_overlay host (text_input slowed (the (text_overlay inp)))
                     = Inr (final_video_url out)
              else final_video_url out = slowed)" .
qed

lemma demo_run:
  "fst (run_workflow demo_app_config demo_host demo_ruby_input) = Inr demo_ruby_output"
  by code_simp

lemma demo_run_steps:
  "completed_steps (fst (snd (run_workflow demo_app_config demo_host demo_ruby_input)))
     = [''prompts'', ''face'', ''video'', ''slowmo'', ''upload'']"
  by code_simp

lemma demo_off: "\<not> rewrite_enabled demo_ruby_input"
  by (simp add: demo_ruby_input_def)

lemma demo_generated:
  "generate_image_with_model demo_host m ps = Inr ''gen/face.png''"
  "generate_video_with_model demo_host m ps = Inr ''gen/video.mp4''"
  by (simp_all add: demo_host_def)

theorem rewrite_disabled_skips_rewriting_witness:
  "\<not> rewrite_enabled demo_ruby_input
   \<and> maybe_rewrite_video demo_host ''gen/video.mp4'' demo_ruby_input 1 init_context []
       = (Inr ''gen/video.mp4'', init_context, [])
   \<and> list_all (\<lambda>c. \<not> is_rewrite (called c))
        (snd (snd (run_workflow demo_app_config demo_host demo_ruby_input)))
   \<and> ''rewrite'' \<notin> set (completed_steps (fst (snd (run_workflow demo_app_config demo_host demo_ruby_input))))
   \<and> fst (run_workflow demo_app_config demo_host demo_ruby_input) = Inr demo_ruby_output
   \<and> upload_to_storage demo_host \<lparr>upload_url = ''gen/face.png'', upload_folder = ''ruby/faces''\<rparr>
       = Inr (face_image_url demo_ruby_output)"
proof -
  note t = rewrite_disabled_skips_rewriting [where inp = demo_ruby_input and host = demo_host
      and cfg = demo_app_config and out = demo_ruby_output and u = "''gen/video.mp4''"
      and speed = 1 and ctx = init_context and calls = "[]"]
  from t demo_off demo_run obtain generated_face where
    g: "generate_image_with_model demo_host (image_model demo_ruby_input)
          (image_params_of demo_ruby_input PORTRAIT_9_16 (enhanced_image_prompt demo_ruby_output))
        = Inr generated_face
        \<or> (\<exists>ratio. generate_image_with_model demo_host (image_model demo_ruby_input)
          (image_params_of demo_ruby_input ratio (enhanced_image_prompt demo_ruby_output))
        = Inr generated_face)"
    and up: "upload_to_storage demo_host \<lparr>upload_url = generated_face, upload_folder = ''ruby/faces''\<rparr>
        = Inr (face_image_url demo_ruby_output)"
    by blast
  from g have "generated_face = ''gen/face.png''"
    by (auto simp add: demo_generated)
  with up t demo_off demo_run show ?thesis by blast
qed

text \<open>
  The claim as first stated fails: the face URL of the output is the one returned by the
  upload, and the final video URL the one returned by the slow motion stage, not the URLs
  that the two generation stages produced.
\<close>

theorem output_urls_counterexample:
  "\<not> rewrite_enabled demo_ruby_input
   \<and> generate_image_with_model demo_host (image_model demo_ruby_input)
        (image_params_of demo_ruby_input PORTRAIT_9_16 ''a person'') = Inr ''gen/face.png''
   \<and> generate_video_with_model demo_host (video_model demo_ruby_input)
        (video_params_of demo_ruby_input PORTRAIT_9_16 ''she gasps'' ''gen/face.png'')
       = Inr ''gen/video.mp4''
   \<and> fst (run_workflow demo_app_config demo_host demo_ruby_input) = Inr demo_ruby_output
   \<and> face_image_url demo_ruby_output = ''r2/face.png''
   \<and> final_video_url demo_ruby_output = ''r2/slow.mp4''"
  using demo_off demo_run by (simp add: demo_generated demo_ruby_output_def)

section \<open>Properties of the Pinterest scraper\<close>

lemma parse_pin_aspect: "parse_pin env pin_data = Some p \<Longrightarrow> gp_aspect_ratio p = PORTRAIT_9_16"
  by (auto simp add: parse_pin_def split: jv.splits if_splits option.splits)

lemma parse_pins_map_filter: "parse_pins env items acc = acc @ List.map_filter (parse_pin env) items"
  by (induction items arbitrary: acc) (simp_all add: List.map_filter_simps split: option.split)

lemma parse_pins_aspect:
  "list_all (\<lambda>p. gp_aspect_ratio p = PORTRAIT_9_16) (parse_pins env items [])"
  by (auto simp add: parse_pins_map_filter list_all_iff List.map_filter_def dest: parse_pin_aspect)

lemma parse_response_aspect:
  "parse_response env data q = Inr out \<Longrightarrow> list_all (\<lambda>p. gp_aspect_ratio p = PORTRAIT_9_16) (out_pins out)"
  using parse_pins_aspect
  by (auto simp add: parse_response_def Let_def split: sum.splits option.splits prod.splits)

lemma execute_aspect:
  "execute cfg env post inp = Inr out \<Longrightarrow> list_all (\<lambda>p. gp_aspect_ratio p = PORTRAIT_9_16) (out_pins out)"
  by (auto simp add: execute_def failure_def split: option.splits if_splits http_result.splits
      dest: parse_response_aspect)

lemma branch_pins_aspect:
  "execute_tool_activity cfg env post tinp = Inr r
   \<Longrightarrow> list_all (\<lambda>p. aspect_ratio p = Some ''9:16'') (branch_pins (Inr r))"
proof -
  assume a: "execute_tool_activity cfg env post tinp = Inr r"
  show ?thesis
  proof (cases "valid_params (params tinp)")
    case False
    with a show ?thesis by (auto simp add: execute_tool_activity_def branch_pins_def)
  next
    case True
    show ?thesis
    proof (cases "execute cfg env post (params tinp)")
      case (Inl e)
      with a True show ?thesis
        by (auto simp add: execute_tool_activity_def branch_pins_def split: if_splits)
    next
      case (Inr out)
      from execute_aspect [OF Inr] have "list_all (\<lambda>p. aspect_ratio p = Some ''9:16'') (map dump_pin (out_pins out))"
        by (simp add: list_all_iff dump_pin_def)
      with a True Inr show ?thesis
        by (auto simp add: execute_tool_activity_def branch_pins_def)
    qed
  qed
qed

lemma branch_pins_aspect_any:
  "list_all (\<lambda>p. aspect_ratio p = Some ''9:16'') (branch_pins (execute_tool_activity cfg env post tinp))"
proof (cases "execute_tool_activity cfg env post tinp")
  case (Inl e)
  then show ?thesis by (simp add: branch_pins_def)
next
  case (Inr r)
  from branch_pins_aspect [OF Inr] show ?thesis by (simp only: Inr)
qed

lemma scrape_pinterest_aspect:
  "scrape_pinterest (execute_tool_activity cfg env post) queries = Inr found
   \<Longrightarrow> list_all (\<lambda>p. aspect_ratio p = Some ''9:16'') found"
proof -
  assume a: "scrape_pinterest (execute_tool_activity cfg env post) queries = Inr found"
  have "list_all (\<lambda>p. aspect_ratio p = Some ''9:16'')
     (concat (map branch_pins (map (\<lambda>q. execute_tool_activity cfg env post (scraper_input q)) queries)))"
    using branch_pins_aspect_any [of cfg env post] by (auto simp add: list_all_iff)
  with a show ?thesis
    by (simp add: scrape_pinterest_eq Let_def split: if_splits)
qed

text \<open>
  C9. Every pin that \<open>execute\<close> returns has the aspect ratio 9:16. The loop over the raw
  pins keeps exactly the elements that \<open>parse_pin\<close> accepts: an element whose
  \<open>aspect_ratio\<close> is not \<open>9:16\<close> is skipped, and so is one with a field that fails
  the validation of the pin model, without an error. So every pin that the workflow
  collects through the activity on this tool has the aspect ratio \<open>9:16\<close>.
\<close>

theorem scraper_returns_only_9_16:
  "(execute cfg env post inp = Inr out
      \<longrightarrow> list_all (\<lambda>p. gp_aspect_ratio p = PORTRAIT_9_16) (out_pins out))
   \<and> parse_pins env items [] = List.map_filter (parse_pin env) items
   \<and> (dict_get kvs ''aspect_ratio'' (JStr []) \<noteq> JStr ''9:16'' \<longrightarrow> parse_pin env (JDict kvs) = None)
   \<and> (validate_opt_str (map_of kvs ''title'') = None \<or> validate_opt_str (map_of kvs ''description'') = None
        \<or> validate_str (dict_get kvs ''image_url'' (JStr [])) = None
        \<or> validate_opt_int env (map_of kvs ''image_width'') = None
        \<or> validate_opt_int env (map_of kvs ''image_height'') = None
      \<longrightarrow> parse_pin env (JDict kvs) = None)
   \<and> (scrape_pinterest (execute_tool_activity cfg env post) queries = Inr found
      \<longrightarrow> list_all (\<lambda>p. aspect_ratio p = Some ''9:16'') found)"
proof (intro conjI impI)
  show "list_all (\<lambda>p. gp_aspect_ratio p = PORTRAIT_9_16) (out_pins out)"
    if "execute cfg env post inp = Inr out"
    using that by (rule execute_aspect)
  show "parse_pins env items [] = List.map_filter (parse_pin env) items"
    by (simp add: parse_pins_map_filter)
  show "parse_pin env (JDict kvs) = None"
    if "dict_get kvs ''aspect_ratio'' (JStr []) \<noteq> JStr ''9:16''"
    using that by (simp add: parse_pin_def)
  show "parse_pin env (JDict kvs) = None"
    if "validate_opt_str (map_of kvs ''title'') = None \<or> validate_opt_str (map_of kvs ''description'') = None
        \<or> validate_str (dict_get kvs ''image_url'' (JStr [])) = None
        \<or> validate_opt_int env (map_of kvs ''image_width'') = None
        \<or> validate_opt_int env (map_of kvs ''image_height'') = None"
    using that by (auto simp add: parse_pin_def split: option.splits)
  show "list_all (\<lambda>p. aspect_ratio p = Some ''9:16'') found"
    if "scrape_pinterest (execute_tool_activity cfg env post) queries = Inr found"
    using that by (rule scrape_pinterest_aspect)
qed

lemma demo_execute:
  "execute demo_config demo_py demo_post (params (scraper_input ''cabin'')) = Inr demo_output"
  by code_simp

lemma demo_scrape:
  "scrape_pinterest (execute_tool_activity demo_config demo_py demo_post) [''cabin'']
     = Inr (map dump_pin (out_pins demo_output))"
  by code_simp

lemma demo_skipped:
  "dict_get [(''id'', JInt 41), (''title'', JStr ''Lake''), (''aspect_ratio'', JStr ''2:3'')]
      ''aspect_ratio'' (JStr []) \<noteq> JStr ''9:16''"
  "validate_opt_str (map_of [(''id'', JInt 41), (''title'', JInt 5), (''aspect_ratio'', JStr ''9:16'')] ''title'')
     = None"
  by (simp_all add: dict_get_def validate_opt_str_def)

theorem scraper_returns_only_9_16_witness:
  "execute demo_config demo_py demo_post (params (scraper_input ''cabin'')) = Inr demo_output
   \<and> list_all (\<lambda>p. gp_aspect_ratio p = PORTRAIT_9_16) (out_pins demo_output)
   \<and> parse_pin demo_py
        (JDict [(''id'', JInt 41), (''title'', JStr ''Lake''), (''aspect_ratio'', JStr ''2:3'')]) = None
   \<and> parse_pin demo_py
        (JDict [(''id'', JInt 41), (''title'', JInt 5), (''aspect_ratio'', JStr ''9:16'')]) = None
   \<and> scrape_pinterest (execute_tool_activity demo_config demo_py demo_post) [''cabin'']
       = Inr (map dump_pin (out_pins demo_output))
   \<and> list_all (\<lambda>p. aspect_ratio p = Some ''9:16'') (map dump_pin (out_pins demo_output))"
proof -
  note a = scraper_returns_only_9_16 [where cfg = demo_config and env = demo_py and post = demo_post
      and inp = "params (scraper_input ''cabin'')" and out = demo_output
      and queries = "[''cabin'']" and found = "map dump_pin (out_pins demo_output)"
      and kvs = "[(''id'', JInt 41), (''title'', JStr ''Lake''), (''aspect_ratio'', JStr ''2:3'')]"]
  note b = scraper_returns_only_9_16 [where env = demo_py
      and kvs = "[(''id'', JInt 41), (''title'', JInt 5), (''aspect_ratio'', JStr ''9:16'')]"]
  from a demo_execute demo_scrape demo_skipped(1)
  have 1: "list_all (\<lambda>p. gp_aspect_ratio p = PORTRAIT_9_16) (out_pins demo_output)
     \<and> parse_pin demo_py
        (JDict [(''id'', JInt 41), (''title'', JStr ''Lake''), (''aspect_ratio'', JStr ''2:3'')]) = None
     \<and> list_all (\<lambda>p. aspect_ratio p = Some ''9:16'') (map dump_pin (out_pins demo_output))"
    by blast
  from b demo_skipped(2)
  have 2: "parse_pin demo_py
        (JDict [(''id'', JInt 41), (''title'', JInt 5), (''aspect_ratio'', JStr ''9:16'')]) = None"
    by blast
  from 1 2 demo_execute demo_scrape show ?thesis by blast
qed

end
